theory Spec2Isabelle
  imports Main "HOL-Library.AList"
begin

section \<open>The screening pipeline of select\_stock.py\<close>

text \<open>
  The theory embeds \<^verbatim>\<open>select_stock.py\<close>: \<^verbatim>\<open>load_data\<close>, \<^verbatim>\<open>load_config\<close>,
  \<^verbatim>\<open>instantiate_selector\<close> and \<^verbatim>\<open>run_select_stock\<close>. Everything the script reaches
  outside itself (the file system, pandas, the JSON parser, the \<^verbatim>\<open>Selector\<close> module) is
  a field of the record \<open>env\<close>; every \<^verbatim>\<open>raise\<close> is a value \<open>Inl e\<close>; every call of the
  logger and every call into a strategy is an element of the trace that each function
  returns next to its result.
\<close>

subsection \<open>Python values\<close>

text \<open>
  The value \<^verbatim>\<open>json.load\<close> returns. \<open>JObj\<close> lists the items of a \<^verbatim>\<open>dict\<close> (its keys are
  strings); JSON numbers are modelled as integers only.
\<close>

datatype json =
    JNull
  | JBool bool
  | JInt int
  | JStr string
  | JArr "json list"
  | JObj "(string \<times> json) list"

text \<open>
  Exceptions. \<open>SystemExit\<close> and \<open>KeyboardInterrupt\<close> derive from \<^verbatim>\<open>BaseException\<close>
  only, so \<^verbatim>\<open>except Exception\<close> does not catch them; \<open>OtherError\<close> stands for any
  other subclass of \<^verbatim>\<open>Exception\<close>, by name.
\<close>

datatype exn =
    AttributeError
  | TypeError
  | ValueError
  | ImportError
  | OtherError string
  | SystemExit int
  | KeyboardInterrupt

fun is_Exception :: "exn \<Rightarrow> bool" where
  "is_Exception (SystemExit _) = False"
| "is_Exception KeyboardInterrupt = False"
| "is_Exception _ = True"

text \<open>Truth value testing (\<^verbatim>\<open>if not x\<close>).\<close>

fun truthy :: "json \<Rightarrow> bool" where
  "truthy JNull = False"
| "truthy (JBool b) = b"
| "truthy (JInt n) = (n \<noteq> 0)"
| "truthy (JStr s) = (s \<noteq> [])"
| "truthy (JArr xs) = (xs \<noteq> [])"
| "truthy (JObj kvs) = (kvs \<noteq> [])"

text \<open>\<^verbatim>\<open>x.get(key, default)\<close>: only a \<^verbatim>\<open>dict\<close> has the method.\<close>

fun py_get :: "json \<Rightarrow> string \<Rightarrow> json \<Rightarrow> exn + json" where
  "py_get (JObj kvs) k d = Inr (case map_of kvs k of None \<Rightarrow> d | Some v \<Rightarrow> v)"
| "py_get _ k d = Inl AttributeError"

text \<open>
  \<^verbatim>\<open>for cfg in x\<close>: a list yields its elements, a \<^verbatim>\<open>dict\<close> its keys, a string its
  characters; the other values are not iterable.
\<close>

fun py_iter :: "json \<Rightarrow> exn + json list" where
  "py_iter (JArr xs) = Inr xs"
| "py_iter (JObj kvs) = Inr (map (\<lambda>kv. JStr (fst kv)) kvs)"
| "py_iter (JStr s) = Inr (map (\<lambda>c. JStr [c]) s)"
| "py_iter _ = Inl TypeError"

text \<open>
  Dictionary keys. Lists and dicts are unhashable; \<^verbatim>\<open>True == 1\<close> and \<^verbatim>\<open>False == 0\<close>
  hold in Python, so a bool and an int can be the same key.
\<close>

fun hashable :: "json \<Rightarrow> bool" where
  "hashable (JArr _) = False"
| "hashable (JObj _) = False"
| "hashable _ = True"

fun key_num :: "json \<Rightarrow> int option" where
  "key_num (JBool b) = Some (if b then 1 else 0)"
| "key_num (JInt n) = Some n"
| "key_num _ = None"

definition py_eq :: "json \<Rightarrow> json \<Rightarrow> bool" where
  "py_eq a b =
     (case key_num a of
        Some x \<Rightarrow> (case key_num b of Some y \<Rightarrow> x = y | None \<Rightarrow> False)
      | None \<Rightarrow> (case key_num b of Some y \<Rightarrow> False | None \<Rightarrow> a = b))"

type_synonym picks = "string list"

text \<open>
  The dict \<^verbatim>\<open>results\<close>, in insertion order. \<^verbatim>\<open>results[alias] = picks\<close> keeps the
  position and the key object of an existing equal key and replaces its value.
\<close>

type_synonym results = "(json \<times> picks) list"

fun dict_upd :: "json \<Rightarrow> picks \<Rightarrow> results \<Rightarrow> results" where
  "dict_upd k v [] = [(k, v)]"
| "dict_upd k v (p # ps) = (if py_eq (fst p) k then (fst p, v) # ps else p # dict_upd k v ps)"

fun dict_get :: "results \<Rightarrow> json \<Rightarrow> picks option" where
  "dict_get [] k = None"
| "dict_get (p # ps) k = (if py_eq (fst p) k then Some (snd p) else dict_get ps k)"

definition dict_set :: "json \<Rightarrow> picks \<Rightarrow> results \<Rightarrow> exn + results" where
  "dict_set k v d = (if hashable k then Inr (dict_upd k v d) else Inl TypeError)"

subsection \<open>Strings\<close>

text \<open>
  A \<open>char\<close> is a code point below 256. \<open>is_space\<close> is \<^verbatim>\<open>str.isspace\<close> there and
  \<open>to_lower\<close> is \<^verbatim>\<open>str.lower\<close> there.
\<close>

definition is_space :: "char \<Rightarrow> bool" where
  "is_space c = (c \<in> {CHR 0x09, CHR 0x0A, CHR 0x0B, CHR 0x0C, CHR 0x0D,
                      CHR 0x1C, CHR 0x1D, CHR 0x1E, CHR 0x1F, CHR 0x20, CHR 0x85, CHR 0xA0})"

definition to_lower :: "char \<Rightarrow> char" where
  "to_lower c =
     (let n = (of_char c :: nat)
      in if (65 \<le> n \<and> n \<le> 90) \<or> (192 \<le> n \<and> n \<le> 222 \<and> n \<noteq> 215)
         then char_of (n + 32) else c)"

definition lower :: "string \<Rightarrow> string" where
  "lower s = map to_lower s"

definition strip :: "string \<Rightarrow> string" where
  "strip s = rev (dropWhile is_space (rev (dropWhile is_space s)))"

text \<open>\<^verbatim>\<open>s.split(",")\<close>: the segments between the separators, the empty ones too.\<close>

fun split :: "char \<Rightarrow> string \<Rightarrow> string list" where
  "split sep [] = [[]]"
| "split sep (c # cs) =
     (if c = sep then [] # split sep cs
      else (case split sep cs of
              [] \<Rightarrow> [[c]]
            | w # ws \<Rightarrow> (c # w) # ws))"

subsection \<open>The environment and the trace\<close>

text \<open>
  What \<^verbatim>\<open>pd.to_datetime\<close> returns: \<open>Ts n\<close> is an instant, \<open>NaT\<close> is not-a-time.
  A frame is the rows of one CSV file: the parsed \<^verbatim>\<open>date\<close> column, every cell a date,
  and the rest of the row, which the script never looks at.
\<close>

datatype timestamp = NaT | Ts int

type_synonym frame = "(int \<times> string) list"

type_synonym frames = "(string \<times> frame) list"

text \<open>
  A strategy object is its \<^verbatim>\<open>select(trade_date, data)\<close>, which returns a list of codes
  or raises; a class builds one from \<^verbatim>\<open>params\<close> or raises.
\<close>

type_synonym selector = "timestamp \<Rightarrow> frames \<Rightarrow> exn + picks"

type_synonym selector_class = "json \<Rightarrow> exn + selector"

text \<open>
  \<^item> \<open>path_exists p\<close>: \<^verbatim>\<open>Path(p).exists()\<close>;
  \<^item> \<open>glob_csv d\<close>: \<^verbatim>\<open>[f.stem for f in d.glob("*.csv")]\<close>;
  \<^item> \<open>csv_exists d code\<close>: \<^verbatim>\<open>(d / f"{code}.csv").exists()\<close>;
  \<^item> \<open>read_csv d code\<close>: \<^verbatim>\<open>pd.read_csv(d / f"{code}.csv", parse_dates=["date"])\<close>;
  \<^item> \<open>sort_values df\<close>: \<^verbatim>\<open>df.sort_values("date")\<close>, the sort of pandas, which leaves
    the order of rows of one date open;
  \<^item> \<open>to_datetime s\<close>: \<^verbatim>\<open>pd.to_datetime(s)\<close>;
  \<^item> \<open>json_load p\<close>: \<^verbatim>\<open>json.load\<close> of the opened file \<open>p\<close>;
  \<^item> \<open>selector_module\<close>: \<^verbatim>\<open>importlib.import_module("Selector")\<close>, \<open>None\<close> when there
    is no such module, and otherwise \<^verbatim>\<open>getattr\<close> on it (\<open>None\<close>: no such attribute);
  \<^item> \<open>read_etf_info p\<close>: \<^verbatim>\<open>pd.read_csv(p)\<close> of the reference file;
  \<^item> \<open>report_detail info picks\<close>: the enriched report of lines 153 to 178, which
    formats floating-point columns: the lines it logs and the exception that ends it,
    if one does.
\<close>

record 'e env =
  path_exists :: "string \<Rightarrow> bool"
  glob_csv :: "string \<Rightarrow> string list"
  csv_exists :: "string \<Rightarrow> string \<Rightarrow> bool"
  read_csv :: "string \<Rightarrow> string \<Rightarrow> exn + frame"
  sort_values :: "frame \<Rightarrow> frame"
  to_datetime :: "string \<Rightarrow> exn + timestamp"
  json_load :: "string \<Rightarrow> exn + json"
  selector_module :: "(string \<Rightarrow> selector_class option) option"
  read_etf_info :: "string \<Rightarrow> exn + 'e"
  report_detail :: "'e \<Rightarrow> picks \<Rightarrow> string list \<times> exn option"

text \<open>The \<^verbatim>\<open>argparse.Namespace\<close> that \<^verbatim>\<open>run_select_stock\<close> receives.\<close>

record args =
  data_dir :: string
  config :: string
  date :: "string option"
  tickers :: string
  etf_info :: "string option"

text \<open>
  One constructor for each call of the logger, in the order of the source, and one for
  each call that reads a file or enters a strategy.
\<close>

datatype event =
    Warn_csv_missing string
  | Call_read_csv string
  | Err_config_missing string
  | Err_config_empty
  | Err_data_dir_missing string
  | Err_empty_pool
  | Err_no_data
  | Info_default_date timestamp
  | Warn_etf_info exn
  | Call_instantiate json
  | Err_skip_config json exn
  | Call_select json timestamp
  | Info_result json timestamp nat
  | Info_detail string
  | Info_picks picks

text \<open>What the caller of \<^verbatim>\<open>run_select_stock\<close> sees.\<close>

datatype outcome = ReturnNone | ReturnResults results | Raised exn

subsection \<open>load\_data\<close>

text \<open>The loop of \<^verbatim>\<open>load_data\<close> over \<^verbatim>\<open>codes\<close>, with the dict \<^verbatim>\<open>frames\<close> built so far.\<close>

fun load_data_loop ::
  "'e env \<Rightarrow> string \<Rightarrow> string list \<Rightarrow> frames \<Rightarrow> (exn + frames) \<times> event list" where
  "load_data_loop env dir [] frames = (Inr frames, [])"
| "load_data_loop env dir (code # codes) frames =
     (if \<not> csv_exists env dir code then
        (case load_data_loop env dir codes frames of
           (r, evs) \<Rightarrow> (r, Warn_csv_missing code # evs))
      else
        (case read_csv env dir code of
           Inl e \<Rightarrow> (Inl e, [Call_read_csv code])
         | Inr df \<Rightarrow>
             (case load_data_loop env dir codes (AList.update code (sort_values env df) frames) of
                (r, evs) \<Rightarrow> (r, Call_read_csv code # evs))))"

definition load_data :: "'e env \<Rightarrow> string \<Rightarrow> string list \<Rightarrow> (exn + frames) \<times> event list" where
  "load_data env dir codes = load_data_loop env dir codes []"

subsection \<open>load\_config\<close>

text \<open>Lines 47 to 53: the three shapes of the document.\<close>

fun normalize_cfg :: "json \<Rightarrow> json" where
  "normalize_cfg (JArr xs) = JArr xs"
| "normalize_cfg (JObj kvs) =
     (case map_of kvs ''selectors'' of
        Some v \<Rightarrow> v
      | None \<Rightarrow> JArr [JObj kvs])"
| "normalize_cfg cfg_raw = JArr [cfg_raw]"

definition load_config :: "'e env \<Rightarrow> string \<Rightarrow> (exn + json) \<times> event list" where
  "load_config env cfg_path =
     (if \<not> path_exists env cfg_path then (Inl (SystemExit 1), [Err_config_missing cfg_path])
      else
        (case json_load env cfg_path of
           Inl e \<Rightarrow> (Inl e, [])
         | Inr cfg_raw \<Rightarrow>
             (let cfgs = normalize_cfg cfg_raw
              in if \<not> truthy cfgs then (Inl (SystemExit 1), [Err_config_empty])
                 else (Inr cfgs, []))))"

subsection \<open>instantiate\_selector\<close>

text \<open>
  Lines 68 to 72: a missing module or a missing attribute is turned into \<open>ImportError\<close>;
  \<^verbatim>\<open>getattr\<close> with a name that is not a string raises \<open>TypeError\<close>, which the \<^verbatim>\<open>except\<close>
  clause there lets through.
\<close>

definition load_class :: "'e env \<Rightarrow> json \<Rightarrow> exn + selector_class" where
  "load_class env cls_name =
     (case selector_module env of
        None \<Rightarrow> Inl ImportError
      | Some module \<Rightarrow>
          (case cls_name of
             JStr n \<Rightarrow> (case module n of None \<Rightarrow> Inl ImportError | Some cls \<Rightarrow> Inr cls)
           | _ \<Rightarrow> Inl TypeError))"

text \<open>
  \<^verbatim>\<open>cls(**params)\<close>: the argument after \<^verbatim>\<open>**\<close> must be a mapping, or the call raises
  \<open>TypeError\<close> before the class is entered.
\<close>

fun call_class :: "selector_class \<Rightarrow> json \<Rightarrow> exn + selector" where
  "call_class cls (JObj kvs) = cls (JObj kvs)"
| "call_class cls _ = Inl TypeError"

definition instantiate_selector :: "'e env \<Rightarrow> json \<Rightarrow> exn + (json \<times> selector)" where
  "instantiate_selector env cfg =
     (case py_get cfg ''class'' JNull of
        Inl e \<Rightarrow> Inl e
      | Inr cls_name \<Rightarrow>
          if \<not> truthy cls_name then Inl ValueError
          else
            (case load_class env cls_name of
               Inl e \<Rightarrow> Inl e
             | Inr cls \<Rightarrow>
                 (case py_get cfg ''params'' (JObj []) of
                    Inl e \<Rightarrow> Inl e
                  | Inr params \<Rightarrow>
                      (case py_get cfg ''alias'' cls_name of
                         Inl e \<Rightarrow> Inl e
                       | Inr alias \<Rightarrow>
                           (case call_class cls params of
                              Inl e \<Rightarrow> Inl e
                            | Inr selector \<Rightarrow> Inr (alias, selector))))))"

subsection \<open>The trade date\<close>

text \<open>
  \<^verbatim>\<open>df["date"].max()\<close>: the latest date of the column, a timestamp; for a column with no
  row it is the float \<^verbatim>\<open>nan\<close>.
\<close>

datatype col_max = Latest int | Nan

definition series_max :: "frame \<Rightarrow> col_max" where
  "series_max df = (case map fst df of [] \<Rightarrow> Nan | d # ds \<Rightarrow> Latest (foldl max d ds))"

text \<open>
  The builtin \<^verbatim>\<open>max\<close> keeps the first item and replaces it by a later one \<open>y\<close> when
  \<^verbatim>\<open>y > best\<close>. Between two timestamps that is the order of time; \<^verbatim>\<open>nan > nan\<close> is false;
  between a timestamp and a float it raises \<open>TypeError\<close>. On no item at all \<^verbatim>\<open>max\<close>
  raises \<open>ValueError\<close>.
\<close>

fun max_gt :: "col_max \<Rightarrow> col_max \<Rightarrow> exn + bool" where
  "max_gt (Latest a) (Latest b) = Inr (b < a)"
| "max_gt Nan Nan = Inr False"
| "max_gt _ _ = Inl TypeError"

fun max_from :: "col_max \<Rightarrow> col_max list \<Rightarrow> exn + col_max" where
  "max_from best [] = Inr best"
| "max_from best (y # ys) =
     (case max_gt y best of
        Inl e \<Rightarrow> Inl e
      | Inr gt \<Rightarrow> max_from (if gt then y else best) ys)"

definition py_max :: "col_max list \<Rightarrow> exn + col_max" where
  "py_max xs = (case xs of [] \<Rightarrow> Inl ValueError | x # rest \<Rightarrow> max_from x rest)"

text \<open>\<^verbatim>\<open>if args.date\<close>: a date was given and is not the empty string.\<close>

fun date_given :: "string option \<Rightarrow> bool" where
  "date_given None = False"
| "date_given (Some d) = (d \<noteq> [])"

text \<open>
  Lines 116 to 119 with no date given: the maximum over the loaded frames, then the log
  message with \<^verbatim>\<open>trade_date.date()\<close>, which a float has not (\<open>AttributeError\<close>).
\<close>

definition default_trade_date :: "frames \<Rightarrow> (exn + timestamp) \<times> event list" where
  "default_trade_date data =
     (case py_max (map (\<lambda>kv. series_max (snd kv)) data) of
        Inl e \<Rightarrow> (Inl e, [])
      | Inr Nan \<Rightarrow> (Inl AttributeError, [])
      | Inr (Latest n) \<Rightarrow> (Inr (Ts n), [Info_default_date (Ts n)]))"

text \<open>Lines 113 to 119.\<close>

definition resolve_trade_date ::
  "'e env \<Rightarrow> string option \<Rightarrow> frames \<Rightarrow> (exn + timestamp) \<times> event list" where
  "resolve_trade_date env d data =
     (case d of
        None \<Rightarrow> default_trade_date data
      | Some s \<Rightarrow> if s \<noteq> [] then (to_datetime env s, []) else default_trade_date data)"

subsection \<open>The loop over the selector configurations\<close>

text \<open>
  Lines 146 to 180: the four lines of the result (one prints \<^verbatim>\<open>trade_date.date()\<close>, which
  a timestamp and \<open>NaT\<close> both have), then either the enriched report or the plain list of
  picks.
\<close>

definition report ::
  "'e env \<Rightarrow> 'e option \<Rightarrow> json \<Rightarrow> timestamp \<Rightarrow> picks \<Rightarrow> event list \<times> exn option" where
  "report env etf_info_df alias trade_date picks =
     (case etf_info_df of
        None \<Rightarrow> ([Info_result alias trade_date (length picks), Info_picks picks], None)
      | Some info \<Rightarrow>
          if picks \<noteq> [] then
            (case report_detail env info picks of
               (ls, r) \<Rightarrow> (Info_result alias trade_date (length picks) # map Info_detail ls, r))
          else ([Info_result alias trade_date (length picks), Info_picks picks], None))"

text \<open>
  One turn of the loop of lines 133 to 180, from the dict \<^verbatim>\<open>results\<close> so far: the new
  dict, or the exception that leaves the loop, and the trace of the turn.
\<close>

definition run_one ::
  "'e env \<Rightarrow> timestamp \<Rightarrow> frames \<Rightarrow> 'e option \<Rightarrow> results \<Rightarrow> json
     \<Rightarrow> (exn + results) \<times> event list" where
  "run_one env trade_date data etf_info_df results cfg =
     (case py_get cfg ''activate'' (JBool True) of
        Inl e \<Rightarrow> (Inl e, [])
      | Inr a \<Rightarrow>
          if a = JBool False then (Inr results, [])
          else
            (case instantiate_selector env cfg of
               Inl e \<Rightarrow>
                 if is_Exception e
                 then (Inr results, [Call_instantiate cfg, Err_skip_config cfg e])
                 else (Inl e, [Call_instantiate cfg])
             | Inr (alias, selector) \<Rightarrow>
                 (case selector trade_date data of
                    Inl e \<Rightarrow> (Inl e, [Call_instantiate cfg, Call_select cfg trade_date])
                  | Inr picks \<Rightarrow>
                      (case dict_set alias picks results of
                         Inl e \<Rightarrow> (Inl e, [Call_instantiate cfg, Call_select cfg trade_date])
                       | Inr results' \<Rightarrow>
                           (case report env etf_info_df alias trade_date picks of
                              (evs, None) \<Rightarrow>
                                (Inr results',
                                 Call_instantiate cfg # Call_select cfg trade_date # evs)
                            | (evs, Some e) \<Rightarrow>
                                (Inl e,
                                 Call_instantiate cfg # Call_select cfg trade_date # evs))))))"

fun run_selectors ::
  "'e env \<Rightarrow> timestamp \<Rightarrow> frames \<Rightarrow> 'e option \<Rightarrow> json list \<Rightarrow> results
     \<Rightarrow> (exn + results) \<times> event list" where
  "run_selectors env trade_date data etf_info_df [] results = (Inr results, [])"
| "run_selectors env trade_date data etf_info_df (cfg # cfgs) results =
     (case run_one env trade_date data etf_info_df results cfg of
        (Inl e, evs) \<Rightarrow> (Inl e, evs)
      | (Inr results', evs) \<Rightarrow>
          (case run_selectors env trade_date data etf_info_df cfgs results' of
             (r, evs') \<Rightarrow> (r, evs @ evs')))"

subsection \<open>run\_select\_stock\<close>

text \<open>Lines 99 to 103.\<close>

definition requested_codes :: "'e env \<Rightarrow> args \<Rightarrow> string list" where
  "requested_codes env a =
     (if lower (tickers a) = ''all'' then glob_csv env (data_dir a)
      else map strip (filter (\<lambda>c. strip c \<noteq> []) (split CHR '','' (tickers a))))"

text \<open>Lines 125 to 129: the reference frame is read only when none was passed in.\<close>

definition load_etf_info ::
  "'e env \<Rightarrow> args \<Rightarrow> 'e option \<Rightarrow> (exn + 'e option) \<times> event list" where
  "load_etf_info env a etf_info_df =
     (case etf_info_df of
        Some info \<Rightarrow> (Inr (Some info), [])
      | None \<Rightarrow>
          (case etf_info a of
             None \<Rightarrow> (Inr None, [])
           | Some p \<Rightarrow>
               if p = [] then (Inr None, [])
               else
                 (case read_etf_info env p of
                    Inr info \<Rightarrow> (Inr (Some info), [])
                  | Inl e \<Rightarrow>
                      if is_Exception e then (Inr None, [Warn_etf_info e])
                      else (Inl e, []))))"

text \<open>
  Lines 93 to 129, all that \<^verbatim>\<open>run_select_stock\<close> does before its loop: either the
  function is left (with \<^verbatim>\<open>return None\<close> or by an exception), or the loop starts with a
  trade date, the loaded data, the selector configurations and the reference frame.
\<close>

definition prepare ::
  "'e env \<Rightarrow> args \<Rightarrow> 'e option
     \<Rightarrow> (outcome + timestamp \<times> frames \<times> json \<times> 'e option) \<times> event list" where
  "prepare env a etf_info_df =
     (if \<not> path_exists env (data_dir a)
      then (Inl ReturnNone, [Err_data_dir_missing (data_dir a)])
      else
        (let codes = requested_codes env a
         in if codes = [] then (Inl ReturnNone, [Err_empty_pool])
            else
              (case load_data env (data_dir a) codes of
                 (Inl e, evs1) \<Rightarrow> (Inl (Raised e), evs1)
               | (Inr data, evs1) \<Rightarrow>
                   if data = [] then (Inl ReturnNone, evs1 @ [Err_no_data])
                   else
                     (case resolve_trade_date env (date a) data of
                        (Inl e, evs2) \<Rightarrow> (Inl (Raised e), evs1 @ evs2)
                      | (Inr trade_date, evs2) \<Rightarrow>
                          (case load_config env (config a) of
                             (Inl e, evs3) \<Rightarrow> (Inl (Raised e), evs1 @ evs2 @ evs3)
                           | (Inr selector_cfgs, evs3) \<Rightarrow>
                               (case load_etf_info env a etf_info_df of
                                  (Inl e, evs4) \<Rightarrow>
                                    (Inl (Raised e), evs1 @ evs2 @ evs3 @ evs4)
                                | (Inr info, evs4) \<Rightarrow>
                                    (Inr (trade_date, data, selector_cfgs, info),
                                     evs1 @ evs2 @ evs3 @ evs4)))))))"

text \<open>The whole function: lines 93 to 129, then the loop of lines 131 to 182.\<close>

definition run_select_stock :: "'e env \<Rightarrow> args \<Rightarrow> 'e option \<Rightarrow> outcome \<times> event list" where
  "run_select_stock env a etf_info_df =
     (case prepare env a etf_info_df of
        (Inl out, evs) \<Rightarrow> (out, evs)
      | (Inr (trade_date, data, selector_cfgs, info), evs) \<Rightarrow>
          (case py_iter selector_cfgs of
             Inl e \<Rightarrow> (Raised e, evs)
           | Inr cfgs \<Rightarrow>
               (case run_selectors env trade_date data info cfgs [] of
                  (Inl e, evs5) \<Rightarrow> (Raised e, evs @ evs5)
                | (Inr results, evs5) \<Rightarrow> (ReturnResults results, evs @ evs5))))"

subsection \<open>Notions used in the properties\<close>

text \<open>
  The test of line 134, \<^verbatim>\<open>cfg.get("activate", True) is False\<close>, holds: the value under
  the key \<^verbatim>\<open>activate\<close> is the boolean \<^verbatim>\<open>False\<close> itself.
\<close>

definition deactivated :: "json \<Rightarrow> bool" where
  "deactivated cfg = (py_get cfg ''activate'' (JBool True) = Inr (JBool False))"

text \<open>The configuration that an element of the trace is about, if it is about one.\<close>

fun spec_of_event :: "event \<Rightarrow> json option" where
  "spec_of_event (Call_instantiate cfg) = Some cfg"
| "spec_of_event (Err_skip_config cfg e) = Some cfg"
| "spec_of_event (Call_select cfg t) = Some cfg"
| "spec_of_event _ = None"


text \<open>\<^verbatim>\<open>sep.join(ws)\<close>, for a separator of one character.\<close>

fun join :: "char \<Rightarrow> string list \<Rightarrow> string" where
  "join sep [] = []"
| "join sep [w] = w"
| "join sep (w # w' # ws) = w @ sep # join sep (w' # ws)"

subsection \<open>A small installation\<close>

text \<open>
  A data directory with the files \<^verbatim>\<open>A.csv\<close> and \<^verbatim>\<open>B.csv\<close> (no two rows of one date, so
  that sorting them leaves nothing open), a module \<^verbatim>\<open>Selector\<close>
  with three classes (\<^verbatim>\<open>Every\<close> picks every code, the \<^verbatim>\<open>select\<close> of \<^verbatim>\<open>Broken\<close> raises,
  \<^verbatim>\<open>OnDate\<close> picks the codes whose latest row is of the trade date),
  and a configuration file; the theorems below are run on it and on variants of it.
\<close>

definition Every :: selector_class where
  "Every params = Inr (\<lambda>trade_date data. Inr (map fst data))"

definition Broken :: selector_class where
  "Broken params = Inr (\<lambda>trade_date data. Inl (OtherError ''KeyError''))"

definition last_date :: "frame \<Rightarrow> timestamp option" where
  "last_date df = (case series_max df of Latest n \<Rightarrow> Some (Ts n) | Nan \<Rightarrow> None)"

definition OnDate :: selector_class where
  "OnDate params =
     Inr (\<lambda>trade_date data.
            Inr (map fst (filter (\<lambda>kv. last_date (snd kv) = Some trade_date) data)))"

definition demo_env :: "json \<Rightarrow> unit env" where
  "demo_env doc =
     \<lparr> path_exists = (\<lambda>p. p = ''data'' \<or> p = ''configs.json''),
       glob_csv = (\<lambda>d. [''A'', ''B'']),
       csv_exists = (\<lambda>d code. code = ''A'' \<or> code = ''B''),
       read_csv = (\<lambda>d code. if code = ''A'' then Inr [(3, ''x''), (1, ''y'')] else Inr [(2, ''z'')]),
       sort_values = sort_key fst,
       to_datetime = (\<lambda>s. if s = ''2025-06-30'' then Inr (Ts 7) else Inl ValueError),
       json_load = (\<lambda>p. Inr doc),
       selector_module =
         Some (\<lambda>n. if n = ''Every'' then Some Every
                    else if n = ''Broken'' then Some Broken
                    else if n = ''OnDate'' then Some OnDate else None),
       read_etf_info = (\<lambda>p. Inl (OtherError ''FileNotFoundError'')),
       report_detail = (\<lambda>info picks. ([], None)) \<rparr>"

definition demo_args :: args where
  "demo_args =
     \<lparr> data_dir = ''data'', config = ''configs.json'', date = None,
       tickers = ''all'', etf_info = None \<rparr>"

text \<open>
  Three configurations, the first two under the alias \<^verbatim>\<open>X\<close>.
\<close>

definition lww_specs :: "json list" where
  "lww_specs = [JObj [(''class'', JStr ''Every''), (''alias'', JStr ''X'')]]
     @ JObj [(''class'', JStr ''OnDate''), (''alias'', JStr ''X'')]
     # [JObj [(''class'', JStr ''Every'')]]"

section \<open>Properties\<close>

subsection \<open>The three shapes of the configuration document\<close>

text \<open>
  C5. The three shapes of the document that encode the same selector configurations
  give the same result of \<^verbatim>\<open>load_config\<close>: an object with the key \<^verbatim>\<open>selectors\<close> holding
  the array \<open>specs\<close> and the bare array \<open>specs\<close>; a single object (one without the key
  \<^verbatim>\<open>selectors\<close>, which would make it the third shape) and the array of that one object.
  For a file that exists and a non-empty array the result is the array itself, and the
  loop runs over its elements.
\<close>

theorem config_shapes_normalize_equal:
  "(map_of kvs ''selectors'' = Some (JArr specs) \<longrightarrow>
      load_config (env\<lparr>json_load := \<lambda>p. Inr (JObj kvs)\<rparr>) path
        = load_config (env\<lparr>json_load := \<lambda>p. Inr (JArr specs)\<rparr>) path)
   \<and> (map_of kvs' ''selectors'' = None \<longrightarrow>
      load_config (env\<lparr>json_load := \<lambda>p. Inr (JObj kvs')\<rparr>) path
        = load_config (env\<lparr>json_load := \<lambda>p. Inr (JArr [JObj kvs'])\<rparr>) path)
   \<and> (path_exists env path \<and> specs \<noteq> [] \<longrightarrow>
      load_config (env\<lparr>json_load := \<lambda>p. Inr (JArr specs)\<rparr>) path = (Inr (JArr specs), [])
      \<and> py_iter (JArr specs) = Inr specs)"
  by (simp add: load_config_def)

theorem config_shapes_normalize_equal_witness:
  "map_of [(''selectors'', JArr [JObj [(''class'', JStr ''Every'')]])] ''selectors''
     = Some (JArr [JObj [(''class'', JStr ''Every'')]])
   \<and> map_of [(''class'', JStr ''Every'')] ''selectors'' = None
   \<and> path_exists (demo_env JNull) ''configs.json''
   \<and> load_config (demo_env (JObj [(''selectors'', JArr [JObj [(''class'', JStr ''Every'')]])]))
        ''configs.json''
     = load_config (demo_env (JArr [JObj [(''class'', JStr ''Every'')]])) ''configs.json''
   \<and> load_config (demo_env (JObj [(''class'', JStr ''Every'')])) ''configs.json''
     = load_config (demo_env (JArr [JObj [(''class'', JStr ''Every'')]])) ''configs.json''
   \<and> load_config (demo_env (JArr [JObj [(''class'', JStr ''Every'')]])) ''configs.json''
     = (Inr (JArr [JObj [(''class'', JStr ''Every'')]]), [])"
  using config_shapes_normalize_equal
    [of "[(''selectors'', JArr [JObj [(''class'', JStr ''Every'')]])]"
        "[JObj [(''class'', JStr ''Every'')]]"
        "demo_env JNull" "''configs.json''" "[(''class'', JStr ''Every'')]"]
  by (simp add: demo_env_def)

subsection \<open>Lemmas on the model\<close>

lemmas demo_defs = run_select_stock_def prepare_def demo_env_def demo_args_def
  requested_codes_def lower_def to_lower_def load_data_def resolve_trade_date_def
  default_trade_date_def load_config_def load_etf_info_def run_one_def
  instantiate_selector_def load_class_def Every_def Broken_def OnDate_def last_date_def
  dict_set_def report_def series_max_def py_max_def py_eq_def strip_def is_space_def

lemma load_data_nonempty_codes:
  "load_data env dir codes = (Inr data, evs) \<Longrightarrow> data \<noteq> [] \<Longrightarrow> codes \<noteq> []"
  by (auto simp: load_data_def)

lemma run_selectors_append:
  "run_selectors env td data info (xs @ ys) r =
     (case run_selectors env td data info xs r of
        (Inl e, evs) \<Rightarrow> (Inl e, evs)
      | (Inr r', evs) \<Rightarrow>
          (case run_selectors env td data info ys r' of (out, evs') \<Rightarrow> (out, evs @ evs')))"
  by (induction xs arbitrary: r) (auto split: prod.splits sum.splits)

lemma run_one_select_raises:
  assumes "py_get cfg ''activate'' (JBool True) = Inr flag" "flag \<noteq> JBool False"
    and "instantiate_selector env cfg = Inr (alias, selector)"
    and "selector td data = Inl e"
  shows "run_one env td data info r cfg = (Inl e, [Call_instantiate cfg, Call_select cfg td])"
  using assms by (simp add: run_one_def)

lemma demo_prepare:
  "doc \<noteq> [] \<Longrightarrow> prepare (demo_env (JArr doc)) demo_args None
     = (Inr (Ts 3, [(''A'', [(1, ''y''), (3, ''x'')]), (''B'', [(2, ''z'')])], JArr doc, None),
        [Call_read_csv ''A'', Call_read_csv ''B'', Info_default_date (Ts 3)])"
  by (simp add: demo_defs)

subsection \<open>An exception of a strategy's select\<close>

lemma run_one_skip:
  assumes "py_get cfg ''activate'' (JBool True) = Inr flag" "flag \<noteq> JBool False"
    and "instantiate_selector env cfg = Inl e" and "is_Exception e"
  shows "run_one env td data info r cfg = (Inr r, [Call_instantiate cfg, Err_skip_config cfg e])"
  using assms by (simp add: run_one_def)

lemma report_no_skip:
  "report env info al td picks = (evs, x) \<Longrightarrow> Err_skip_config c e \<notin> set evs"
  by (auto simp: report_def split: option.splits if_splits prod.splits)

lemma run_one_skip_event:
  "run_one env td data info r cfg = (out, evs) \<Longrightarrow> Err_skip_config c e \<in> set evs
     \<Longrightarrow> c = cfg \<and> instantiate_selector env cfg = Inl e \<and> is_Exception e"
  by (auto simp: run_one_def dest: report_no_skip
      split: sum.splits if_splits prod.splits option.splits)

lemma run_selectors_skip_event:
  "run_selectors env td data info cfgs r = (out, evs) \<Longrightarrow> Err_skip_config c e \<in> set evs
     \<Longrightarrow> c \<in> set cfgs \<and> instantiate_selector env c = Inl e \<and> is_Exception e"
proof (induction cfgs arbitrary: r out evs)
  case Nil
  then show ?case by simp
next
  case (Cons cfg cfgs)
  obtain o1 e1 where ro: "run_one env td data info r cfg = (o1, e1)"
    by (cases "run_one env td data info r cfg")
  show ?case
  proof (cases o1)
    case (Inl x)
    with ro Cons.prems have "Err_skip_config c e \<in> set e1" by simp
    from run_one_skip_event [OF ro this] show ?thesis by simp
  next
    case (Inr r')
    obtain o2 e2 where rs: "run_selectors env td data info cfgs r' = (o2, e2)"
      by (cases "run_selectors env td data info cfgs r'")
    from ro Inr rs Cons.prems have "Err_skip_config c e \<in> set e1 \<or> Err_skip_config c e \<in> set e2"
      by auto
    then show ?thesis
    proof
      assume "Err_skip_config c e \<in> set e1"
      from run_one_skip_event [OF ro this] show ?thesis by simp
    next
      assume "Err_skip_config c e \<in> set e2"
      from Cons.IH [OF rs this] show ?thesis by simp
    qed
  qed
qed

lemma run_one_completes:
  assumes "run_one env td data info r cfg = (Inr r', evs)"
  shows "deactivated cfg
     \<or> (\<exists>x. instantiate_selector env cfg = Inl x \<and> is_Exception x)
     \<or> (\<exists>al sel picks. instantiate_selector env cfg = Inr (al, sel) \<and> sel td data = Inr picks)"
  using assms
  by (auto simp: run_one_def deactivated_def
      split: sum.splits if_splits prod.splits option.splits)

text \<open>
  C1, as the code has it. The call \<^verbatim>\<open>selector.select(trade_date, data)\<close> of line 142
  stands outside the \<^verbatim>\<open>try\<close> of lines 136 to 140. When a configuration is not
  deactivated, its strategy is built and its \<^verbatim>\<open>select\<close> raises \<open>e\<close>, the loop ends
  there with \<open>e\<close>: the configurations after it are not run, and \<^verbatim>\<open>run_select_stock\<close>
  is left by the exception \<open>e\<close> and returns no mapping. Only a failure to build the strategy
  is caught: it is logged, the turn leaves the results as they are and the loop goes on
  with the next configuration; every skip message of a run is about such a failure, and a
  turn that ends normally either skipped its configuration or got picks from \<^verbatim>\<open>select\<close>.
\<close>

theorem select_exception_propagates:
  assumes "run_selectors env td data info pre [] = (Inr r, evs)"
  shows "(py_get cfg ''activate'' (JBool True) = Inr flag \<and> flag \<noteq> JBool False
          \<and> instantiate_selector env cfg = Inr (al, selector) \<and> selector td data = Inl e \<longrightarrow>
            run_selectors env td data info (pre @ cfg # post) []
              = (Inl e, evs @ [Call_instantiate cfg, Call_select cfg td])
            \<and> (prepare env a etf = (Inr (td, data, JArr (pre @ cfg # post), info), evs0) \<longrightarrow>
                 run_select_stock env a etf
                   = (Raised e, evs0 @ evs @ [Call_instantiate cfg, Call_select cfg td])))
     \<and> (py_get cfg' ''activate'' (JBool True) = Inr flag' \<and> flag' \<noteq> JBool False
          \<and> instantiate_selector env cfg' = Inl e' \<and> is_Exception e' \<longrightarrow>
            run_one env td data info r cfg'
              = (Inr r, [Call_instantiate cfg', Err_skip_config cfg' e'])
            \<and> run_selectors env td data info (pre @ cfg' # post') []
              = (case run_selectors env td data info post' r of
                   (out, evs') \<Rightarrow>
                     (out, evs @ [Call_instantiate cfg', Err_skip_config cfg' e'] @ evs')))
     \<and> (Err_skip_config c x \<in> set (snd (run_selectors env td data info cfgs r0)) \<longrightarrow>
            c \<in> set cfgs \<and> instantiate_selector env c = Inl x \<and> is_Exception x)
     \<and> (run_one env td data info r1 c1 = (Inr r2, evs2) \<longrightarrow>
            deactivated c1
            \<or> (\<exists>y. instantiate_selector env c1 = Inl y \<and> is_Exception y)
            \<or> (\<exists>al1 sel1 picks1. instantiate_selector env c1 = Inr (al1, sel1)
                  \<and> sel1 td data = Inr picks1))"
proof (intro conjI impI)
  assume h: "py_get cfg ''activate'' (JBool True) = Inr flag \<and> flag \<noteq> JBool False
          \<and> instantiate_selector env cfg = Inr (al, selector) \<and> selector td data = Inl e"
  then have ro: "run_one env td data info r cfg = (Inl e, [Call_instantiate cfg, Call_select cfg td])"
    using run_one_select_raises by blast
  with assms show run: "run_selectors env td data info (pre @ cfg # post) []
              = (Inl e, evs @ [Call_instantiate cfg, Call_select cfg td])"
    by (simp add: run_selectors_append)
  assume "prepare env a etf = (Inr (td, data, JArr (pre @ cfg # post), info), evs0)"
  with run show "run_select_stock env a etf
                   = (Raised e, evs0 @ evs @ [Call_instantiate cfg, Call_select cfg td])"
    by (simp add: run_select_stock_def)
next
  assume h: "py_get cfg' ''activate'' (JBool True) = Inr flag' \<and> flag' \<noteq> JBool False
          \<and> instantiate_selector env cfg' = Inl e' \<and> is_Exception e'"
  then show ro: "run_one env td data info r cfg'
              = (Inr r, [Call_instantiate cfg', Err_skip_config cfg' e'])"
    using run_one_skip by blast
  with assms show "run_selectors env td data info (pre @ cfg' # post') []
              = (case run_selectors env td data info post' r of
                   (out, evs') \<Rightarrow>
                     (out, evs @ [Call_instantiate cfg', Err_skip_config cfg' e'] @ evs'))"
    by (simp add: run_selectors_append split: prod.splits)
next
  assume "Err_skip_config c x \<in> set (snd (run_selectors env td data info cfgs r0))"
  then show "c \<in> set cfgs" "instantiate_selector env c = Inl x" "is_Exception x"
    using run_selectors_skip_event
      [of env td data info cfgs r0 "fst (run_selectors env td data info cfgs r0)"
          "snd (run_selectors env td data info cfgs r0)" c x]
    by simp_all
next
  assume "run_one env td data info r1 c1 = (Inr r2, evs2)"
  then show "deactivated c1
            \<or> (\<exists>y. instantiate_selector env c1 = Inl y \<and> is_Exception y)
            \<or> (\<exists>al1 sel1 picks1. instantiate_selector env c1 = Inr (al1, sel1)
                  \<and> sel1 td data = Inr picks1)"
    by (rule run_one_completes)
qed

text \<open>
  The claim itself fails: with a first configuration whose \<^verbatim>\<open>select\<close> raises and a second
  one that alone would return its picks, the function is left by the exception, where the
  claim has it return the mapping of the second.
\<close>

theorem select_exception_counterexample:
  "fst (run_select_stock
          (demo_env (JArr [JObj [(''class'', JStr ''Broken'')], JObj [(''class'', JStr ''Every'')]]))
          demo_args None) = Raised (OtherError ''KeyError'')
   \<and> fst (run_select_stock
          (demo_env (JArr [JObj [(''class'', JStr ''Broken'')], JObj [(''class'', JStr ''Every'')]]))
          demo_args None) \<noteq> ReturnResults [(JStr ''Every'', [''A'', ''B''])]
   \<and> fst (run_select_stock (demo_env (JArr [JObj [(''class'', JStr ''Every'')]])) demo_args None)
        = ReturnResults [(JStr ''Every'', [''A'', ''B''])]"
  by (simp add: demo_defs)

theorem select_exception_propagates_witness:
  "run_selectors (demo_env (JArr ([JObj [(''class'', JStr ''Every'')]]
           @ JObj [(''class'', JStr ''Broken'')] # [JObj [(''class'', JStr ''Every'')]])))
      (Ts 3) [(''A'', [(1, ''y''), (3, ''x'')]), (''B'', [(2, ''z'')])] None
      ([JObj [(''class'', JStr ''Every'')]] @ JObj [(''class'', JStr ''Broken'')]
         # [JObj [(''class'', JStr ''Every'')]]) []
    = (Inl (OtherError ''KeyError''),
       [Call_instantiate (JObj [(''class'', JStr ''Every'')]),
        Call_select (JObj [(''class'', JStr ''Every'')]) (Ts 3),
        Info_result (JStr ''Every'') (Ts 3) 2, Info_picks [''A'', ''B'']]
       @ [Call_instantiate (JObj [(''class'', JStr ''Broken'')]),
          Call_select (JObj [(''class'', JStr ''Broken'')]) (Ts 3)])
   \<and> run_select_stock
        (demo_env (JArr ([JObj [(''class'', JStr ''Every'')]] @ JObj [(''class'', JStr ''Broken'')]
           # [JObj [(''class'', JStr ''Every'')]])))
        demo_args None
    = (Raised (OtherError ''KeyError''),
       [Call_read_csv ''A'', Call_read_csv ''B'', Info_default_date (Ts 3)]
       @ [Call_instantiate (JObj [(''class'', JStr ''Every'')]),
          Call_select (JObj [(''class'', JStr ''Every'')]) (Ts 3),
          Info_result (JStr ''Every'') (Ts 3) 2, Info_picks [''A'', ''B'']]
       @ [Call_instantiate (JObj [(''class'', JStr ''Broken'')]),
          Call_select (JObj [(''class'', JStr ''Broken'')]) (Ts 3)])
   \<and> run_one (demo_env (JArr ([JObj [(''class'', JStr ''Every'')]]
           @ JObj [(''class'', JStr ''Broken'')] # [JObj [(''class'', JStr ''Every'')]])))
        (Ts 3) [(''A'', [(1, ''y''), (3, ''x'')]), (''B'', [(2, ''z'')])] None
        [(JStr ''Every'', [''A'', ''B''])] (JObj [(''class'', JStr ''Ghost'')])
    = (Inr [(JStr ''Every'', [''A'', ''B''])],
       [Call_instantiate (JObj [(''class'', JStr ''Ghost'')]),
        Err_skip_config (JObj [(''class'', JStr ''Ghost'')]) ImportError])
   \<and> run_selectors (demo_env (JArr ([JObj [(''class'', JStr ''Every'')]]
           @ JObj [(''class'', JStr ''Broken'')] # [JObj [(''class'', JStr ''Every'')]])))
        (Ts 3) [(''A'', [(1, ''y''), (3, ''x'')]), (''B'', [(2, ''z'')])] None
        ([JObj [(''class'', JStr ''Every'')]] @ JObj [(''class'', JStr ''Ghost'')]
           # [JObj [(''class'', JStr ''OnDate'')]]) []
    = (Inr [(JStr ''Every'', [''A'', ''B'']), (JStr ''OnDate'', [''A''])],
       [Call_instantiate (JObj [(''class'', JStr ''Every'')]),
        Call_select (JObj [(''class'', JStr ''Every'')]) (Ts 3),
        Info_result (JStr ''Every'') (Ts 3) 2, Info_picks [''A'', ''B'']]
       @ [Call_instantiate (JObj [(''class'', JStr ''Ghost'')]),
          Err_skip_config (JObj [(''class'', JStr ''Ghost'')]) ImportError]
       @ [Call_instantiate (JObj [(''class'', JStr ''OnDate'')]),
          Call_select (JObj [(''class'', JStr ''OnDate'')]) (Ts 3),
          Info_result (JStr ''OnDate'') (Ts 3) 1, Info_picks [''A'']])"
proof -
  let ?env = "demo_env (JArr ([JObj [(''class'', JStr ''Every'')]]
                @ JObj [(''class'', JStr ''Broken'')] # [JObj [(''class'', JStr ''Every'')]]))"
  let ?data = "[(''A'', [(1, ''y''), (3, ''x'')]), (''B'', [(2, ''z'')])]"
  have pre: "run_selectors ?env (Ts 3) ?data None [JObj [(''class'', JStr ''Every'')]] []
      = (Inr [(JStr ''Every'', [''A'', ''B''])],
         [Call_instantiate (JObj [(''class'', JStr ''Every'')]),
          Call_select (JObj [(''class'', JStr ''Every'')]) (Ts 3),
          Info_result (JStr ''Every'') (Ts 3) 2, Info_picks [''A'', ''B'']])"
    by (simp add: demo_env_def run_one_def instantiate_selector_def load_class_def
          Every_def dict_set_def report_def)
  have post: "run_selectors ?env (Ts 3) ?data None
        [JObj [(''class'', JStr ''OnDate'')]] [(JStr ''Every'', [''A'', ''B''])]
      = (Inr [(JStr ''Every'', [''A'', ''B'']), (JStr ''OnDate'', [''A''])],
         [Call_instantiate (JObj [(''class'', JStr ''OnDate'')]),
          Call_select (JObj [(''class'', JStr ''OnDate'')]) (Ts 3),
          Info_result (JStr ''OnDate'') (Ts 3) 1, Info_picks [''A'']])"
    by (simp add: demo_env_def run_one_def instantiate_selector_def load_class_def
          OnDate_def last_date_def series_max_def dict_set_def report_def py_eq_def)
  have raises: "py_get (JObj [(''class'', JStr ''Broken'')]) ''activate'' (JBool True)
        = Inr (JBool True) \<and> JBool True \<noteq> JBool False
      \<and> instantiate_selector ?env (JObj [(''class'', JStr ''Broken'')])
        = Inr (JStr ''Broken'', \<lambda>trade_date data. Inl (OtherError ''KeyError''))
      \<and> (\<lambda>trade_date data. Inl (OtherError ''KeyError'') :: exn + picks) (Ts 3) ?data
        = Inl (OtherError ''KeyError'')"
    by (simp add: demo_env_def instantiate_selector_def load_class_def Broken_def)
  have fails: "py_get (JObj [(''class'', JStr ''Ghost'')]) ''activate'' (JBool True)
        = Inr (JBool True) \<and> JBool True \<noteq> JBool False
      \<and> instantiate_selector ?env (JObj [(''class'', JStr ''Ghost'')]) = Inl ImportError
      \<and> is_Exception ImportError"
    by (simp add: demo_env_def instantiate_selector_def load_class_def)
  note inst = select_exception_propagates [OF pre]
  note part1 = inst [THEN conjunct1, THEN mp, OF raises]
  note part2 = inst [THEN conjunct2, THEN conjunct1, THEN mp, OF fails]
  have prep: "prepare ?env demo_args None
      = (Inr (Ts 3, ?data, JArr ([JObj [(''class'', JStr ''Every'')]]
               @ JObj [(''class'', JStr ''Broken'')] # [JObj [(''class'', JStr ''Every'')]]), None),
         [Call_read_csv ''A'', Call_read_csv ''B'', Info_default_date (Ts 3)])"
    by (rule demo_prepare) simp
  have 2: "run_select_stock ?env demo_args None
    = (Raised (OtherError ''KeyError''),
       [Call_read_csv ''A'', Call_read_csv ''B'', Info_default_date (Ts 3)]
       @ [Call_instantiate (JObj [(''class'', JStr ''Every'')]),
          Call_select (JObj [(''class'', JStr ''Every'')]) (Ts 3),
          Info_result (JStr ''Every'') (Ts 3) 2, Info_picks [''A'', ''B'']]
       @ [Call_instantiate (JObj [(''class'', JStr ''Broken'')]),
          Call_select (JObj [(''class'', JStr ''Broken'')]) (Ts 3)])"
    by (rule part1 [THEN conjunct2, THEN mp, OF prep])
  have 4: "run_selectors ?env (Ts 3) ?data None
        ([JObj [(''class'', JStr ''Every'')]] @ JObj [(''class'', JStr ''Ghost'')]
           # [JObj [(''class'', JStr ''OnDate'')]]) []
    = (Inr [(JStr ''Every'', [''A'', ''B'']), (JStr ''OnDate'', [''A''])],
       [Call_instantiate (JObj [(''class'', JStr ''Every'')]),
        Call_select (JObj [(''class'', JStr ''Every'')]) (Ts 3),
        Info_result (JStr ''Every'') (Ts 3) 2, Info_picks [''A'', ''B'']]
       @ [Call_instantiate (JObj [(''class'', JStr ''Ghost'')]),
          Err_skip_config (JObj [(''class'', JStr ''Ghost'')]) ImportError]
       @ [Call_instantiate (JObj [(''class'', JStr ''OnDate'')]),
          Call_select (JObj [(''class'', JStr ''OnDate'')]) (Ts 3),
          Info_result (JStr ''OnDate'') (Ts 3) 1, Info_picks [''A'']])"
    using part2 [THEN conjunct2, of "[JObj [(''class'', JStr ''OnDate'')]]"] post by simp
  from part1 [THEN conjunct1, of "[JObj [(''class'', JStr ''Every'')]]"] 2
    part2 [THEN conjunct1] 4
  show ?thesis by simp
qed

subsection \<open>The fatal conditions\<close>

text \<open>
  C2, as the code has it. A missing data directory, an empty list of codes and an empty
  loaded mapping make \<^verbatim>\<open>run_select_stock\<close> log an error and return \<^verbatim>\<open>None\<close>. A missing
  configuration file and an empty list of configurations are met in \<^verbatim>\<open>load_config\<close>, once
  the data is loaded and lines 113 to 119 have given the trade date: it logs an error and
  calls \<^verbatim>\<open>sys.exit(1)\<close>, so \<^verbatim>\<open>run_select_stock\<close> is left by \<open>SystemExit 1\<close> and returns
  nothing.
\<close>

theorem fatal_conditions:
  "(\<not> path_exists env (data_dir a) \<longrightarrow>
      run_select_stock env a etf = (ReturnNone, [Err_data_dir_missing (data_dir a)]))
   \<and> (path_exists env (data_dir a) \<and> requested_codes env a = [] \<longrightarrow>
      run_select_stock env a etf = (ReturnNone, [Err_empty_pool]))
   \<and> (path_exists env (data_dir a) \<and> requested_codes env a \<noteq> []
        \<and> load_data env (data_dir a) (requested_codes env a) = (Inr [], evs0) \<longrightarrow>
      run_select_stock env a etf = (ReturnNone, evs0 @ [Err_no_data]))
   \<and> (path_exists env (data_dir a)
        \<and> load_data env (data_dir a) (requested_codes env a) = (Inr data, evs1) \<and> data \<noteq> []
        \<and> resolve_trade_date env (date a) data = (Inr td, evs2)
        \<and> \<not> path_exists env (config a) \<longrightarrow>
      run_select_stock env a etf
        = (Raised (SystemExit 1), evs1 @ evs2 @ [Err_config_missing (config a)]))
   \<and> (path_exists env (data_dir a)
        \<and> load_data env (data_dir a) (requested_codes env a) = (Inr data, evs1) \<and> data \<noteq> []
        \<and> resolve_trade_date env (date a) data = (Inr td, evs2)
        \<and> path_exists env (config a) \<and> json_load env (config a) = Inr doc
        \<and> \<not> truthy (normalize_cfg doc) \<longrightarrow>
      run_select_stock env a etf
        = (Raised (SystemExit 1), evs1 @ evs2 @ [Err_config_empty]))"
proof (intro conjI impI)
  assume "\<not> path_exists env (data_dir a)"
  then show "run_select_stock env a etf = (ReturnNone, [Err_data_dir_missing (data_dir a)])"
    by (simp add: run_select_stock_def prepare_def)
next
  assume "path_exists env (data_dir a) \<and> requested_codes env a = []"
  then show "run_select_stock env a etf = (ReturnNone, [Err_empty_pool])"
    by (simp add: run_select_stock_def prepare_def)
next
  assume "path_exists env (data_dir a) \<and> requested_codes env a \<noteq> []
        \<and> load_data env (data_dir a) (requested_codes env a) = (Inr [], evs0)"
  then show "run_select_stock env a etf = (ReturnNone, evs0 @ [Err_no_data])"
    by (simp add: run_select_stock_def prepare_def)
next
  assume h: "path_exists env (data_dir a)
        \<and> load_data env (data_dir a) (requested_codes env a) = (Inr data, evs1) \<and> data \<noteq> []
        \<and> resolve_trade_date env (date a) data = (Inr td, evs2)
        \<and> \<not> path_exists env (config a)"
  then have "requested_codes env a \<noteq> []" using load_data_nonempty_codes by blast
  with h show "run_select_stock env a etf
        = (Raised (SystemExit 1), evs1 @ evs2 @ [Err_config_missing (config a)])"
    by (simp add: run_select_stock_def prepare_def load_config_def)
next
  assume h: "path_exists env (data_dir a)
        \<and> load_data env (data_dir a) (requested_codes env a) = (Inr data, evs1) \<and> data \<noteq> []
        \<and> resolve_trade_date env (date a) data = (Inr td, evs2)
        \<and> path_exists env (config a) \<and> json_load env (config a) = Inr doc
        \<and> \<not> truthy (normalize_cfg doc)"
  then have "requested_codes env a \<noteq> []" using load_data_nonempty_codes by blast
  with h show "run_select_stock env a etf
        = (Raised (SystemExit 1), evs1 @ evs2 @ [Err_config_empty])"
    by (simp add: run_select_stock_def prepare_def load_config_def)
qed

text \<open>
  The claim itself fails for the two conditions on the configuration: the function does
  not return \<^verbatim>\<open>None\<close> there.
\<close>

theorem fatal_conditions_counterexample:
  "fst (run_select_stock ((demo_env (JArr [JObj [(''class'', JStr ''Every'')]]))\<lparr>path_exists := \<lambda>p. p = ''data''\<rparr>)
          demo_args None) = Raised (SystemExit 1)
   \<and> fst (run_select_stock ((demo_env (JArr [JObj [(''class'', JStr ''Every'')]]))\<lparr>path_exists := \<lambda>p. p = ''data''\<rparr>)
          demo_args None) \<noteq> ReturnNone
   \<and> fst (run_select_stock (demo_env (JArr [])) demo_args None) = Raised (SystemExit 1)
   \<and> fst (run_select_stock (demo_env (JArr [])) demo_args None) \<noteq> ReturnNone"
  by (simp add: demo_defs)

theorem fatal_conditions_witness:
  "run_select_stock ((demo_env JNull)\<lparr>path_exists := \<lambda>p. False\<rparr>) demo_args None
     = (ReturnNone, [Err_data_dir_missing ''data''])
   \<and> run_select_stock (demo_env JNull) (demo_args\<lparr>tickers := '' , ''\<rparr>) None
     = (ReturnNone, [Err_empty_pool])
   \<and> run_select_stock (demo_env JNull) (demo_args\<lparr>tickers := ''C,D''\<rparr>) None
     = (ReturnNone, [Warn_csv_missing ''C'', Warn_csv_missing ''D'', Err_no_data])
   \<and> run_select_stock ((demo_env JNull)\<lparr>path_exists := \<lambda>p. p = ''data''\<rparr>) demo_args None
     = (Raised (SystemExit 1),
        [Call_read_csv ''A'', Call_read_csv ''B'', Info_default_date (Ts 3),
         Err_config_missing ''configs.json''])
   \<and> run_select_stock (demo_env (JObj [(''selectors'', JArr [])])) demo_args None
     = (Raised (SystemExit 1),
        [Call_read_csv ''A'', Call_read_csv ''B'', Info_default_date (Ts 3), Err_config_empty])"
  using fatal_conditions [where env = "(demo_env JNull)\<lparr>path_exists := \<lambda>p. False\<rparr>" and a = demo_args
           and etf = None]
    fatal_conditions [where env = "demo_env JNull" and a = "demo_args\<lparr>tickers := '' , ''\<rparr>"
           and etf = None]
    fatal_conditions [where env = "demo_env JNull" and a = "demo_args\<lparr>tickers := ''C,D''\<rparr>"
           and etf = None and ?evs0.0 = "[Warn_csv_missing ''C'', Warn_csv_missing ''D'']"]
    fatal_conditions [where env = "(demo_env JNull)\<lparr>path_exists := \<lambda>p. p = ''data''\<rparr>"
           and a = demo_args and etf = None
           and data = "[(''A'', [(1, ''y''), (3, ''x'')]), (''B'', [(2, ''z'')])]"
           and ?evs1.0 = "[Call_read_csv ''A'', Call_read_csv ''B'']" and td = "Ts 3"
           and ?evs2.0 = "[Info_default_date (Ts 3)]"]
    fatal_conditions [where env = "demo_env (JObj [(''selectors'', JArr [])])"
           and a = demo_args and etf = None
           and data = "[(''A'', [(1, ''y''), (3, ''x'')]), (''B'', [(2, ''z'')])]"
           and ?evs1.0 = "[Call_read_csv ''A'', Call_read_csv ''B'']" and td = "Ts 3"
           and ?evs2.0 = "[Info_default_date (Ts 3)]"
           and doc = "JObj [(''selectors'', JArr [])]"]
  by (simp add: demo_env_def demo_args_def requested_codes_def lower_def to_lower_def
       load_data_def resolve_trade_date_def default_trade_date_def series_max_def py_max_def
       strip_def is_space_def)

subsection \<open>An explicit date that does not parse\<close>

text \<open>
  C8, as the code has it. Line 114 calls \<^verbatim>\<open>pd.to_datetime(args.date)\<close> under no \<^verbatim>\<open>try\<close>.
  When the data is loaded and the date given (a non-empty string) does not parse, the
  exception \<open>e\<close> of the parser leaves \<^verbatim>\<open>run_select_stock\<close> as it is: nothing is logged for
  it, no configuration is read and no strategy is run.
\<close>

theorem invalid_date_raises:
  assumes "path_exists env (data_dir a)"
    and "load_data env (data_dir a) (requested_codes env a) = (Inr data, evs1)" and "data \<noteq> []"
    and "date a = Some s" and "s \<noteq> []" and "to_datetime env s = Inl e"
  shows "run_select_stock env a etf = (Raised e, evs1)"
proof -
  have "requested_codes env a \<noteq> []" using assms(2,3) load_data_nonempty_codes by blast
  with assms show ?thesis
    by (simp add: run_select_stock_def prepare_def resolve_trade_date_def)
qed

text \<open>
  The claim itself fails: the caller gets the parser's exception, not a failure value.
\<close>

theorem invalid_date_counterexample:
  "fst (run_select_stock (demo_env (JArr [JObj [(''class'', JStr ''Every'')]]))
          (demo_args\<lparr>date := Some ''30/06''\<rparr>) None) = Raised ValueError
   \<and> fst (run_select_stock (demo_env (JArr [JObj [(''class'', JStr ''Every'')]]))
          (demo_args\<lparr>date := Some ''30/06''\<rparr>) None) \<noteq> ReturnNone"
  by (simp add: demo_defs)

theorem invalid_date_raises_witness:
  "run_select_stock (demo_env (JArr [JObj [(''class'', JStr ''Every'')]]))
          (demo_args\<lparr>date := Some ''30/06''\<rparr>) None
     = (Raised ValueError, [Call_read_csv ''A'', Call_read_csv ''B''])"
  using invalid_date_raises [where env = "demo_env (JArr [JObj [(''class'', JStr ''Every'')]])"
     and a = "demo_args\<lparr>date := Some ''30/06''\<rparr>" and etf = None
     and data = "[(''A'', [(1, ''y''), (3, ''x'')]), (''B'', [(2, ''z'')])]"
     and ?evs1.0 = "[Call_read_csv ''A'', Call_read_csv ''B'']" and s = "''30/06''" and e = ValueError]
  by (simp add: demo_env_def demo_args_def requested_codes_def lower_def to_lower_def
       load_data_def strip_def is_space_def)

subsection \<open>Deactivated configurations\<close>

lemma report_events:
  "report env info al td picks = (evs, x) \<Longrightarrow> ev \<in> set evs \<Longrightarrow> spec_of_event ev = None"
  by (auto simp: report_def split: option.splits if_splits prod.splits)

lemma run_one_events:
  "ev \<in> set (snd (run_one env td data info r cfg)) \<Longrightarrow> spec_of_event ev = Some c
     \<Longrightarrow> c = cfg \<and> \<not> deactivated cfg"
  by (auto simp: run_one_def deactivated_def dest: report_events
      split: sum.splits if_splits prod.splits option.splits)

lemma run_selectors_events:
  "ev \<in> set (snd (run_selectors env td data info cfgs r)) \<Longrightarrow> spec_of_event ev = Some c
     \<Longrightarrow> c \<in> set cfgs \<and> \<not> deactivated c"
proof (induction cfgs arbitrary: r)
  case Nil then show ?case by simp
next
  case (Cons cfg cfgs)
  obtain out evs where ro: "run_one env td data info r cfg = (out, evs)" by (cases "run_one env td data info r cfg")
  show ?case
  proof (cases out)
    case (Inl e)
    with ro Cons.prems run_one_events [of ev env td data info r cfg c] show ?thesis by simp
  next
    case (Inr r')
    obtain out' evs' where rs: "run_selectors env td data info cfgs r' = (out', evs')"
      by (cases "run_selectors env td data info cfgs r'")
    from ro Inr rs Cons.prems(1) have "ev \<in> set evs \<or> ev \<in> set evs'" by simp
    then show ?thesis
    proof
      assume "ev \<in> set evs"
      with ro Cons.prems(2) run_one_events [of ev env td data info r cfg c] show ?thesis by simp
    next
      assume "ev \<in> set evs'"
      with rs Cons.prems(2) Cons.IH [of r'] show ?thesis by simp
    qed
  qed
qed

lemma load_data_loop_events:
  "load_data_loop env dir codes frames = (out, evs) \<Longrightarrow> ev \<in> set evs
     \<Longrightarrow> spec_of_event ev = None"
  by (induction codes arbitrary: frames out evs)
     (auto split: if_splits prod.splits sum.splits)

lemma load_config_events: "ev \<in> set (snd (load_config env p)) \<Longrightarrow> spec_of_event ev = None"
  by (auto simp: load_config_def Let_def split: if_splits sum.splits)

lemma load_etf_info_events: "ev \<in> set (snd (load_etf_info env a etf)) \<Longrightarrow> spec_of_event ev = None"
  by (auto simp: load_etf_info_def split: if_splits sum.splits option.splits)

lemma resolve_events:
  "resolve_trade_date env d data = (out, evs) \<Longrightarrow> ev \<in> set evs \<Longrightarrow> spec_of_event ev = None"
  by (auto simp: resolve_trade_date_def default_trade_date_def
      split: option.splits if_splits sum.splits col_max.splits)

lemma prepare_events: "ev \<in> set (snd (prepare env a etf)) \<Longrightarrow> spec_of_event ev = None"
  using load_config_events [of ev env "config a"] load_etf_info_events [of ev env a etf]
  by (auto simp: prepare_def Let_def load_data_def dest: load_data_loop_events resolve_events
      split: if_splits sum.splits prod.splits)

lemma run_select_stock_events:
  assumes "ev \<in> set (snd (run_select_stock env a etf))" and "spec_of_event ev = Some c"
  shows "\<not> deactivated c"
proof -
  obtain out evs where p: "prepare env a etf = (out, evs)" by (cases "prepare env a etf")
  have pe: "ev \<notin> set evs" using prepare_events [of ev env a etf] p assms(2) by auto
  show ?thesis
  proof (cases out)
    case (Inl o1)
    with p pe assms(1) show ?thesis by (simp add: run_select_stock_def)
  next
    case (Inr q)
    obtain td data doc info where q: "q = (td, data, doc, info)" by (cases q) auto
    show ?thesis
    proof (cases "py_iter doc")
      case (Inl e)
      with p Inr q pe assms(1) show ?thesis by (simp add: run_select_stock_def)
    next
      case it: (Inr cfgs)
      obtain out' evs' where rs: "run_selectors env td data info cfgs [] = (out', evs')"
        by (cases "run_selectors env td data info cfgs []")
      from p Inr q it rs assms(1) pe have "ev \<in> set evs'"
        by (cases out') (auto simp: run_select_stock_def)
      with rs run_selectors_events [of ev env td data info cfgs "[]" c] assms(2)
      show ?thesis by simp
    qed
  qed
qed

lemma run_one_deactivated: "deactivated cfg \<Longrightarrow> run_one env td data info r cfg = (Inr r, [])"
  by (simp add: run_one_def deactivated_def)

lemma run_selectors_filter:
  "run_selectors env td data info (filter (\<lambda>c. \<not> deactivated c) cfgs) r
     = run_selectors env td data info cfgs r"
  by (induction cfgs arbitrary: r) (auto simp: run_one_deactivated split: prod.splits sum.splits)

text \<open>
  C3, as the code has it. The flag that the loop reads is the entry \<^verbatim>\<open>activate\<close> of the
  configuration, not \<^verbatim>\<open>active\<close>. A configuration whose entry \<^verbatim>\<open>activate\<close> is \<^verbatim>\<open>false\<close>
  is skipped entirely: its turn of the loop changes nothing and logs nothing, the run is
  the run of the list without it, and no call of \<^verbatim>\<open>instantiate_selector\<close> or \<^verbatim>\<open>select\<close>
  and no skip message in the trace of \<^verbatim>\<open>run_select_stock\<close> is about it.
\<close>

theorem deactivated_spec_skipped:
  assumes "map_of kvs ''activate'' = Some (JBool False)"
  shows "run_one env td data info r (JObj kvs) = (Inr r, [])
    \<and> run_selectors env td data info (pre @ JObj kvs # post) r
        = run_selectors env td data info (pre @ post) r
    \<and> (\<forall>ev \<in> set (snd (run_select_stock env a etf)). spec_of_event ev \<noteq> Some (JObj kvs))"
proof -
  have d: "deactivated (JObj kvs)" using assms by (simp add: deactivated_def)
  have 1: "run_one env td data info r (JObj kvs) = (Inr r, [])" by (rule run_one_deactivated [OF d])
  have 2: "run_selectors env td data info (pre @ JObj kvs # post) r
        = run_selectors env td data info (pre @ post) r"
    by (simp add: run_selectors_append run_one_deactivated [OF d] split: prod.splits sum.splits)
  have 3: "\<forall>ev \<in> set (snd (run_select_stock env a etf)). spec_of_event ev \<noteq> Some (JObj kvs)"
    using run_select_stock_events [of _ env a etf "JObj kvs"] d by blast
  from 1 2 3 show ?thesis by blast
qed

text \<open>
  The claim itself fails: a configuration whose field \<^verbatim>\<open>active\<close> is false is built and run,
  and its picks are in the result.
\<close>

theorem deactivated_spec_counterexample:
  "run_select_stock
     (demo_env (JArr [JObj [(''class'', JStr ''Every''), (''active'', JBool False)]]))
     demo_args None
   = (ReturnResults [(JStr ''Every'', [''A'', ''B''])],
      [Call_read_csv ''A'', Call_read_csv ''B'', Info_default_date (Ts 3),
       Call_instantiate (JObj [(''class'', JStr ''Every''), (''active'', JBool False)]),
       Call_select (JObj [(''class'', JStr ''Every''), (''active'', JBool False)]) (Ts 3),
       Info_result (JStr ''Every'') (Ts 3) 2, Info_picks [''A'', ''B'']])"
  by (simp add: demo_defs)

theorem deactivated_spec_skipped_witness:
  "map_of [(''class'', JStr ''Broken''), (''activate'', JBool False)] ''activate''
     = Some (JBool False)
   \<and> run_one (demo_env JNull) (Ts 3) [(''A'', [(1, ''y''), (3, ''x'')])] None []
        (JObj [(''class'', JStr ''Broken''), (''activate'', JBool False)]) = (Inr [], [])
   \<and> run_selectors (demo_env JNull) (Ts 3) [(''A'', [(1, ''y''), (3, ''x'')])] None
        ([] @ JObj [(''class'', JStr ''Broken''), (''activate'', JBool False)]
            # [JObj [(''class'', JStr ''Every'')]]) []
      = (Inr [(JStr ''Every'', [''A''])],
         [Call_instantiate (JObj [(''class'', JStr ''Every'')]),
          Call_select (JObj [(''class'', JStr ''Every'')]) (Ts 3),
          Info_result (JStr ''Every'') (Ts 3) 1, Info_picks [''A'']])"
  using deactivated_spec_skipped
    [where kvs = "[(''class'', JStr ''Broken''), (''activate'', JBool False)]"
       and env = "demo_env JNull" and td = "Ts 3" and data = "[(''A'', [(1, ''y''), (3, ''x'')])]"
       and info = None and r = "[]" and pre = "[]" and post = "[JObj [(''class'', JStr ''Every'')]]"]
  by (simp add: demo_env_def run_one_def instantiate_selector_def load_class_def
        Every_def dict_set_def report_def)

text \<open>
  C9. One turn of the loop on a \<^verbatim>\<open>dict\<close> leaves the results as they are and the trace
  empty exactly when the value under the key \<^verbatim>\<open>activate\<close> is the boolean \<^verbatim>\<open>False\<close>. With
  any other value there the strategy is built and run: a failure to build it is logged and
  skipped, an exception of its \<^verbatim>\<open>select\<close> leaves the loop, and the picks that \<^verbatim>\<open>select\<close>
  returns are stored under the alias. In particular \<^verbatim>\<open>0\<close>, the empty string and \<^verbatim>\<open>null\<close>
  under \<^verbatim>\<open>activate\<close>, and \<^verbatim>\<open>false\<close> under the key \<^verbatim>\<open>active\<close>, do not skip the turn.
\<close>

theorem skip_only_on_literal_false:
  "(run_one env td data info r (JObj kvs) = (Inr r, [])
      \<longleftrightarrow> map_of kvs ''activate'' = Some (JBool False))
   \<and> (map_of kvs ''activate'' \<noteq> Some (JBool False)
        \<and> instantiate_selector env (JObj kvs) = Inl e \<and> is_Exception e \<longrightarrow>
      run_one env td data info r (JObj kvs)
        = (Inr r, [Call_instantiate (JObj kvs), Err_skip_config (JObj kvs) e]))
   \<and> (map_of kvs ''activate'' \<noteq> Some (JBool False)
        \<and> instantiate_selector env (JObj kvs) = Inr (al, selector)
        \<and> selector td data = Inl e \<longrightarrow>
      run_one env td data info r (JObj kvs)
        = (Inl e, [Call_instantiate (JObj kvs), Call_select (JObj kvs) td]))
   \<and> (map_of kvs ''activate'' \<noteq> Some (JBool False)
        \<and> instantiate_selector env (JObj kvs) = Inr (al, selector)
        \<and> selector td data = Inr picks \<and> hashable al
        \<and> report env info al td picks = (evs, None) \<longrightarrow>
      run_one env td data info r (JObj kvs)
        = (Inr (dict_upd al picks r),
           Call_instantiate (JObj kvs) # Call_select (JObj kvs) td # evs))
   \<and> (v \<in> {JInt 0, JStr [], JNull} \<longrightarrow>
      run_one env td data info r (JObj ((''activate'', v) # kvs)) \<noteq> (Inr r, [])
      \<and> Call_instantiate (JObj ((''activate'', v) # kvs))
           \<in> set (snd (run_one env td data info r (JObj ((''activate'', v) # kvs)))))
   \<and> (map_of kvs ''activate'' = None \<longrightarrow>
      run_one env td data info r (JObj ((''active'', JBool False) # kvs)) \<noteq> (Inr r, [])
      \<and> Call_instantiate (JObj ((''active'', JBool False) # kvs))
           \<in> set (snd (run_one env td data info r (JObj ((''active'', JBool False) # kvs)))))"
proof -
  have m: "Call_instantiate (JObj kvs') \<in> set (snd (run_one env td data info r (JObj kvs')))
      \<longleftrightarrow> map_of kvs' ''activate'' \<noteq> Some (JBool False)" for kvs'
    by (auto simp: run_one_def split: sum.splits option.splits prod.splits)
  have 1: "run_one env td data info r (JObj kvs') = (Inr r, [])
      \<longleftrightarrow> map_of kvs' ''activate'' = Some (JBool False)" for kvs'
  proof
    assume "run_one env td data info r (JObj kvs') = (Inr r, [])"
    then have "Call_instantiate (JObj kvs') \<notin> set (snd (run_one env td data info r (JObj kvs')))"
      by simp
    then show "map_of kvs' ''activate'' = Some (JBool False)" by (simp add: m)
  next
    assume "map_of kvs' ''activate'' = Some (JBool False)"
    then show "run_one env td data info r (JObj kvs') = (Inr r, [])"
      by (simp add: run_one_def)
  qed
  have 2: "map_of kvs ''activate'' \<noteq> Some (JBool False)
        \<and> instantiate_selector env (JObj kvs) = Inl e \<and> is_Exception e \<longrightarrow>
      run_one env td data info r (JObj kvs)
        = (Inr r, [Call_instantiate (JObj kvs), Err_skip_config (JObj kvs) e])"
    by (auto simp: run_one_def split: option.splits)
  have 3: "map_of kvs ''activate'' \<noteq> Some (JBool False)
        \<and> instantiate_selector env (JObj kvs) = Inr (al, selector)
        \<and> selector td data = Inl e \<longrightarrow>
      run_one env td data info r (JObj kvs)
        = (Inl e, [Call_instantiate (JObj kvs), Call_select (JObj kvs) td])"
    by (auto simp: run_one_def split: option.splits)
  have 4: "map_of kvs ''activate'' \<noteq> Some (JBool False)
        \<and> instantiate_selector env (JObj kvs) = Inr (al, selector)
        \<and> selector td data = Inr picks \<and> hashable al
        \<and> report env info al td picks = (evs, None) \<longrightarrow>
      run_one env td data info r (JObj kvs)
        = (Inr (dict_upd al picks r),
           Call_instantiate (JObj kvs) # Call_select (JObj kvs) td # evs)"
    by (auto simp: run_one_def dict_set_def split: option.splits)
  have 5: "v \<in> {JInt 0, JStr [], JNull} \<longrightarrow>
      run_one env td data info r (JObj ((''activate'', v) # kvs)) \<noteq> (Inr r, [])
      \<and> Call_instantiate (JObj ((''activate'', v) # kvs))
           \<in> set (snd (run_one env td data info r (JObj ((''activate'', v) # kvs))))"
    unfolding 1 m by auto
  have 6: "map_of kvs ''activate'' = None \<longrightarrow>
      run_one env td data info r (JObj ((''active'', JBool False) # kvs)) \<noteq> (Inr r, [])
      \<and> Call_instantiate (JObj ((''active'', JBool False) # kvs))
           \<in> set (snd (run_one env td data info r (JObj ((''active'', JBool False) # kvs))))"
    unfolding 1 m by simp
  from 1 [of kvs] 2 3 4 5 6 show ?thesis by blast
qed

theorem skip_only_on_literal_false_witness:
  "run_one (demo_env JNull) (Ts 3) [(''A'', [(1, ''y''), (3, ''x'')])] None []
       (JObj [(''activate'', JInt 0), (''class'', JStr ''Every'')])
     = (Inr [(JStr ''Every'', [''A''])],
        [Call_instantiate (JObj [(''activate'', JInt 0), (''class'', JStr ''Every'')]),
         Call_select (JObj [(''activate'', JInt 0), (''class'', JStr ''Every'')]) (Ts 3),
         Info_result (JStr ''Every'') (Ts 3) 1, Info_picks [''A'']])
   \<and> run_one (demo_env JNull) (Ts 3) [(''A'', [(1, ''y''), (3, ''x'')])] None []
       (JObj [(''active'', JBool False), (''class'', JStr ''Broken'')])
     = (Inl (OtherError ''KeyError''),
        [Call_instantiate (JObj [(''active'', JBool False), (''class'', JStr ''Broken'')]),
         Call_select (JObj [(''active'', JBool False), (''class'', JStr ''Broken'')]) (Ts 3)])
   \<and> run_one (demo_env JNull) (Ts 3) [(''A'', [(1, ''y''), (3, ''x'')])] None []
       (JObj [(''activate'', JNull), (''class'', JStr ''Ghost'')])
     = (Inr [],
        [Call_instantiate (JObj [(''activate'', JNull), (''class'', JStr ''Ghost'')]),
         Err_skip_config (JObj [(''activate'', JNull), (''class'', JStr ''Ghost'')]) ImportError])
   \<and> run_one (demo_env JNull) (Ts 3) [(''A'', [(1, ''y''), (3, ''x'')])] None []
       (JObj [(''activate'', JBool False), (''class'', JStr ''Every'')]) = (Inr [], [])
   \<and> run_one (demo_env JNull) (Ts 3) [(''A'', [(1, ''y''), (3, ''x'')])] None []
       (JObj [(''activate'', JStr []), (''class'', JStr ''Every'')]) \<noteq> (Inr [], [])"
proof -
  let ?env = "demo_env JNull"
  let ?data = "[(''A'', [(1, ''y''), (3, ''x'')])]"
  have h1: "map_of [(''activate'', JInt 0), (''class'', JStr ''Every'')] ''activate''
        \<noteq> Some (JBool False)
      \<and> instantiate_selector ?env (JObj [(''activate'', JInt 0), (''class'', JStr ''Every'')])
        = Inr (JStr ''Every'', \<lambda>trade_date data. Inr (map fst data))
      \<and> (\<lambda>trade_date data. Inr (map fst data) :: exn + picks) (Ts 3) ?data = Inr [''A'']
      \<and> hashable (JStr ''Every'')
      \<and> report ?env None (JStr ''Every'') (Ts 3) [''A'']
        = ([Info_result (JStr ''Every'') (Ts 3) 1, Info_picks [''A'']], None)"
    by (simp add: demo_env_def instantiate_selector_def load_class_def Every_def report_def)
  have h2: "map_of [(''active'', JBool False), (''class'', JStr ''Broken'')] ''activate''
        \<noteq> Some (JBool False)
      \<and> instantiate_selector ?env (JObj [(''active'', JBool False), (''class'', JStr ''Broken'')])
        = Inr (JStr ''Broken'', \<lambda>trade_date data. Inl (OtherError ''KeyError''))
      \<and> (\<lambda>trade_date data. Inl (OtherError ''KeyError'') :: exn + picks) (Ts 3) ?data
        = Inl (OtherError ''KeyError'')"
    by (simp add: demo_env_def instantiate_selector_def load_class_def Broken_def)
  have h3: "map_of [(''activate'', JNull), (''class'', JStr ''Ghost'')] ''activate''
        \<noteq> Some (JBool False)
      \<and> instantiate_selector ?env (JObj [(''activate'', JNull), (''class'', JStr ''Ghost'')])
        = Inl ImportError
      \<and> is_Exception ImportError"
    by (simp add: demo_env_def instantiate_selector_def load_class_def)
  have h4: "map_of [(''activate'', JBool False), (''class'', JStr ''Every'')] ''activate''
        = Some (JBool False)"
    by simp
  have h5: "JStr [] \<in> {JInt 0, JStr [], JNull}" by simp
  note t1 = skip_only_on_literal_false
      [where env = ?env and td = "Ts 3" and data = ?data and info = None and r = "[]"
         and kvs = "[(''activate'', JInt 0), (''class'', JStr ''Every'')]"
         and al = "JStr ''Every''" and selector = "\<lambda>trade_date data. Inr (map fst data)"
         and picks = "[''A'']"
         and evs = "[Info_result (JStr ''Every'') (Ts 3) 1, Info_picks [''A'']]"]
  note t2 = skip_only_on_literal_false
      [where env = ?env and td = "Ts 3" and data = ?data and info = None and r = "[]"
         and kvs = "[(''active'', JBool False), (''class'', JStr ''Broken'')]"
         and al = "JStr ''Broken''"
         and selector = "\<lambda>trade_date data. Inl (OtherError ''KeyError'')"
         and e = "OtherError ''KeyError''"]
  note t3 = skip_only_on_literal_false
      [where env = ?env and td = "Ts 3" and data = ?data and info = None and r = "[]"
         and kvs = "[(''activate'', JNull), (''class'', JStr ''Ghost'')]" and e = ImportError]
  note t4 = skip_only_on_literal_false
      [where env = ?env and td = "Ts 3" and data = ?data and info = None and r = "[]"
         and kvs = "[(''activate'', JBool False), (''class'', JStr ''Every'')]"]
  note t5 = skip_only_on_literal_false
      [where env = ?env and td = "Ts 3" and data = ?data and info = None and r = "[]"
         and kvs = "[(''class'', JStr ''Every'')]" and v = "JStr []"]
  note c1 = t1 [THEN conjunct2, THEN conjunct2, THEN conjunct2, THEN conjunct1, THEN mp, OF h1]
  note c2 = t2 [THEN conjunct2, THEN conjunct2, THEN conjunct1, THEN mp, OF h2]
  note c3 = t3 [THEN conjunct2, THEN conjunct1, THEN mp, OF h3]
  note c4 = t4 [THEN conjunct1, THEN iffD2, OF h4]
  note c5 = t5 [THEN conjunct2, THEN conjunct2, THEN conjunct2, THEN conjunct2, THEN conjunct1,
       THEN mp, OF h5, THEN conjunct1]
  from c1 c2 c3 c4 c5
  show ?thesis by simp
qed

subsection \<open>The instrument selector\<close>

lemma of_char_to_lower:
  "(of_char (to_lower c) :: nat) =
     (if (65 \<le> (of_char c :: nat) \<and> (of_char c :: nat) \<le> 90)
         \<or> (192 \<le> (of_char c :: nat) \<and> (of_char c :: nat) \<le> 222 \<and> (of_char c :: nat) \<noteq> 215)
      then of_char c + 32 else of_char c)"
  by (simp add: to_lower_def Let_def of_char_of)

lemma to_lower_eq_a: "to_lower c = CHR ''a'' \<longleftrightarrow> c = CHR ''a'' \<or> c = CHR ''A''"
proof -
  have "to_lower c = CHR ''a'' \<longleftrightarrow> (of_char (to_lower c) :: nat) = 97"
    using of_char_eq_iff [of "to_lower c" "CHR ''a''", where ?'a = nat] by simp
  also have "\<dots> \<longleftrightarrow> (of_char c :: nat) = 97 \<or> (of_char c :: nat) = 65"
    by (auto simp: of_char_to_lower)
  also have "\<dots> \<longleftrightarrow> c = CHR ''a'' \<or> c = CHR ''A''"
    using of_char_eq_iff [of c "CHR ''a''", where ?'a = nat]
          of_char_eq_iff [of c "CHR ''A''", where ?'a = nat] by simp
  finally show ?thesis .
qed

lemma to_lower_eq_l: "to_lower c = CHR ''l'' \<longleftrightarrow> c = CHR ''l'' \<or> c = CHR ''L''"
proof -
  have "to_lower c = CHR ''l'' \<longleftrightarrow> (of_char (to_lower c) :: nat) = 108"
    using of_char_eq_iff [of "to_lower c" "CHR ''l''", where ?'a = nat] by simp
  also have "\<dots> \<longleftrightarrow> (of_char c :: nat) = 108 \<or> (of_char c :: nat) = 76"
    by (auto simp: of_char_to_lower)
  also have "\<dots> \<longleftrightarrow> c = CHR ''l'' \<or> c = CHR ''L''"
    using of_char_eq_iff [of c "CHR ''l''", where ?'a = nat]
          of_char_eq_iff [of c "CHR ''L''", where ?'a = nat] by simp
  finally show ?thesis .
qed

lemma lower_three: "lower t = [x, y, z] \<longleftrightarrow> (\<exists>a b c. t = [a, b, c] \<and> to_lower a = x \<and> to_lower b = y \<and> to_lower c = z)"
  by (auto simp: lower_def map_eq_Cons_conv)

lemma lower_all_iff:
  "lower t = ''all'' \<longleftrightarrow>
     t \<in> {''all'', ''alL'', ''aLl'', ''aLL'', ''All'', ''AlL'', ''ALl'', ''ALL''}"
  unfolding lower_three to_lower_eq_a to_lower_eq_l by auto

lemma split_nonempty: "split sep s \<noteq> []"
  by (induction s) (auto split: list.splits)

lemma join_Cons: "ws \<noteq> [] \<Longrightarrow> join sep (w # ws) = w @ sep # join sep ws"
  by (cases ws) auto

lemma join_split: "join sep (split sep s) = s"
proof (induction s)
  case Nil show ?case by simp
next
  case (Cons c s)
  obtain w ws where sp: "split sep s = w # ws" using split_nonempty [of sep s] by (cases "split sep s") auto
  show ?case
  proof (cases "c = sep")
    case True
    with Cons sp show ?thesis by (simp add: join_Cons)
  next
    case False
    with Cons sp show ?thesis by (cases ws) auto
  qed
qed

lemma split_no_sep: "w \<in> set (split sep s) \<Longrightarrow> sep \<notin> set w"
  by (induction s arbitrary: w) (auto split: list.splits if_splits)

lemma codes_as_words:
  "map strip (filter (\<lambda>c. strip c \<noteq> []) xs) = filter (\<lambda>s. s \<noteq> []) (map strip xs)"
  by (induction xs) auto

lemma strip_no_outer_space: "strip s \<noteq> [] \<Longrightarrow> \<not> is_space (hd (strip s)) \<and> \<not> is_space (last (strip s))"
proof -
  assume ne: "strip s \<noteq> []"
  let ?d = "dropWhile is_space s"
  let ?e = "dropWhile is_space (rev ?d)"
  have e: "?e \<noteq> []" using ne by (simp add: strip_def)
  have l: "\<not> is_space (hd ?e)" by (rule hd_dropWhile [OF e])
  have "rev ?d \<noteq> []" using e by (metis dropWhile.simps(1))
  then have d: "?d \<noteq> []" by (metis rev.simps(1))
  have hd_d: "\<not> is_space (hd ?d)" by (rule hd_dropWhile [OF d])
  have "rev ?d = takeWhile is_space (rev ?d) @ ?e" by simp
  then have "last (rev ?d) = last ?e" using e by (metis last_appendR)
  then have "last ?e = hd ?d" using d by (simp add: last_rev)
  with hd_d l e show ?thesis by (simp add: strip_def hd_rev last_rev)
qed

text \<open>
  C10. The selector string means all files exactly when it is one of the eight spellings
  of \<^verbatim>\<open>all\<close> in upper and lower case. Otherwise the codes are the segments between the
  commas (which rejoined by commas give the string back, and hold no comma), each
  stripped of surrounding whitespace, the empty ones dropped: so no code is empty or begins
  or ends with whitespace. When the list of codes is empty the function logs one error and
  returns \<^verbatim>\<open>None\<close>; the trace holds nothing else, so no file was looked for or read.
\<close>

theorem ticker_selector:
  "(lower (tickers a) = ''all'' \<longleftrightarrow>
      tickers a \<in> {''all'', ''alL'', ''aLl'', ''aLL'', ''All'', ''AlL'', ''ALl'', ''ALL''})
   \<and> (lower (tickers a) = ''all'' \<longrightarrow> requested_codes env a = glob_csv env (data_dir a))
   \<and> (lower (tickers a) \<noteq> ''all'' \<longrightarrow>
        requested_codes env a
          = filter (\<lambda>s. s \<noteq> []) (map strip (split CHR '','' (tickers a))))
   \<and> join CHR '','' (split CHR '','' (tickers a)) = tickers a
   \<and> (\<forall>w \<in> set (split CHR '','' (tickers a)). CHR '','' \<notin> set w)
   \<and> (lower (tickers a) \<noteq> ''all'' \<longrightarrow>
        (\<forall>c \<in> set (requested_codes env a).
           c \<noteq> [] \<and> \<not> is_space (hd c) \<and> \<not> is_space (last c)))
   \<and> (requested_codes env a = [] \<longrightarrow>
        run_select_stock env a etf
          = (ReturnNone,
             [if path_exists env (data_dir a) then Err_empty_pool
              else Err_data_dir_missing (data_dir a)]))"
proof -
  have 1: "lower (tickers a) = ''all'' \<longleftrightarrow>
      tickers a \<in> {''all'', ''alL'', ''aLl'', ''aLL'', ''All'', ''AlL'', ''ALl'', ''ALL''}"
    by (rule lower_all_iff)
  have 2: "lower (tickers a) = ''all'' \<longrightarrow> requested_codes env a = glob_csv env (data_dir a)"
    by (simp add: requested_codes_def)
  have 3: "lower (tickers a) \<noteq> ''all'' \<longrightarrow>
        requested_codes env a
          = filter (\<lambda>s. s \<noteq> []) (map strip (split CHR '','' (tickers a)))"
    by (simp add: requested_codes_def codes_as_words)
  have 4: "join CHR '','' (split CHR '','' (tickers a)) = tickers a"
    by (rule join_split)
  have 5: "\<forall>w \<in> set (split CHR '','' (tickers a)). CHR '','' \<notin> set w"
    using split_no_sep by blast
  have 6: "lower (tickers a) \<noteq> ''all'' \<longrightarrow>
        (\<forall>c \<in> set (requested_codes env a).
           c \<noteq> [] \<and> \<not> is_space (hd c) \<and> \<not> is_space (last c))"
  proof (intro impI ballI)
    fix c assume na: "lower (tickers a) \<noteq> ''all''" and c: "c \<in> set (requested_codes env a)"
    from na c obtain w where "c = strip w" "strip w \<noteq> []"
      by (auto simp: requested_codes_def)
    then show "c \<noteq> [] \<and> \<not> is_space (hd c) \<and> \<not> is_space (last c)"
      using strip_no_outer_space [of w] by simp
  qed
  have 7: "requested_codes env a = [] \<longrightarrow>
        run_select_stock env a etf
          = (ReturnNone,
             [if path_exists env (data_dir a) then Err_empty_pool
              else Err_data_dir_missing (data_dir a)])"
    by (simp add: run_select_stock_def prepare_def)
  from 1 2 3 4 5 6 7 show ?thesis by blast
qed

theorem ticker_selector_witness:
  "lower ''aLL'' = ''all''
   \<and> requested_codes (demo_env JNull) (demo_args\<lparr>tickers := ''aLL''\<rparr>) = [''A'', ''B'']
   \<and> lower '' a, ,b ,'' \<noteq> ''all''
   \<and> requested_codes (demo_env JNull) (demo_args\<lparr>tickers := '' a, ,b ,''\<rparr>) = [''a'', ''b'']
   \<and> requested_codes (demo_env JNull) (demo_args\<lparr>tickers := '' , ''\<rparr>) = []
   \<and> run_select_stock (demo_env JNull) (demo_args\<lparr>tickers := '' , ''\<rparr>) None
        = (ReturnNone, [Err_empty_pool])"
  using ticker_selector [where a = "demo_args\<lparr>tickers := ''aLL''\<rparr>" and env = "demo_env JNull"]
    ticker_selector [where a = "demo_args\<lparr>tickers := '' a, ,b ,''\<rparr>" and env = "demo_env JNull"]
    ticker_selector [where a = "demo_args\<lparr>tickers := '' , ''\<rparr>" and env = "demo_env JNull"
      and etf = None]
  by (simp add: demo_env_def demo_args_def lower_def to_lower_def strip_def is_space_def)

subsection \<open>The trade date of a run\<close>

lemma foldl_max_Max: "foldl max (d::int) ds = Max (set (d # ds))"
proof -
  have "(\<lambda>x s. max s x) = (max :: int \<Rightarrow> int \<Rightarrow> int)"
    by (intro ext) (simp add: max.commute)
  moreover have "fold max ds d = Max (set (d # ds))"
    by (rule Max.set_eq_fold [symmetric])
  ultimately show ?thesis by (simp only: foldl_conv_fold)
qed

lemma series_max_nonempty: "df \<noteq> [] \<Longrightarrow> series_max df = Latest (Max (fst ` set df))"
  by (cases df) (simp_all add: series_max_def foldl_max_Max)

lemma max_from_Latest:
  "max_from (Latest b) (map Latest xs) = Inr (Latest (foldl max b xs))"
  by (induction xs arbitrary: b) (auto simp: max_def)

lemma py_max_Latest: "xs \<noteq> [] \<Longrightarrow> py_max (map Latest xs) = Inr (Latest (Max (set xs)))"
  by (cases xs) (simp_all add: py_max_def max_from_Latest foldl_max_Max)

lemma default_date:
  assumes "data \<noteq> []" and "\<forall>kv \<in> set data. snd kv \<noteq> []"
  shows "default_trade_date data
           = (Inr (Ts (Max ((\<lambda>kv. Max (fst ` set (snd kv))) ` set data))),
              [Info_default_date (Ts (Max ((\<lambda>kv. Max (fst ` set (snd kv))) ` set data)))])"
proof -
  have eq: "map (\<lambda>kv. series_max (snd kv)) data
              = map Latest (map (\<lambda>kv. Max (fst ` set (snd kv))) data)"
    using assms(2) by (simp add: series_max_nonempty)
  have "py_max (map (\<lambda>kv. series_max (snd kv)) data)
          = Inr (Latest (Max ((\<lambda>kv. Max (fst ` set (snd kv))) ` set data)))"
    unfolding eq using assms(1) py_max_Latest [of "map (\<lambda>kv. Max (fst ` set (snd kv))) data"]
    by simp
  then show ?thesis by (simp add: default_trade_date_def)
qed

text \<open>
  A loaded frame with no row: its maximum is \<^verbatim>\<open>nan\<close>, and no trade date comes of it.
  Next to a frame with rows the builtin \<^verbatim>\<open>max\<close> raises; with no frame with rows line 119
  raises.
\<close>

lemma max_from_all_Nan: "\<forall>y \<in> set ys. y = Nan \<Longrightarrow> max_from Nan ys = Inr Nan"
  by (induction ys) auto

lemma max_from_mixed:
  "Nan \<in> set (x # xs) \<Longrightarrow> (\<exists>n. Latest n \<in> set (x # xs)) \<Longrightarrow> max_from x xs = Inl TypeError"
proof (induction xs arbitrary: x)
  case Nil
  then show ?case by auto
next
  case (Cons y ys)
  show ?case
  proof (cases x)
    case Nan
    show ?thesis
    proof (cases y)
      case (Latest a)
      with Nan show ?thesis by simp
    next
      case Nan2: Nan
      have "Nan \<in> set (Nan # ys)" by simp
      moreover have "\<exists>n. Latest n \<in> set (Nan # ys)" using Cons.prems(2) Nan Nan2 by auto
      ultimately have "max_from Nan ys = Inl TypeError" by (rule Cons.IH)
      with Nan Nan2 show ?thesis by simp
    qed
  next
    case (Latest b)
    show ?thesis
    proof (cases y)
      case Nan
      with Latest show ?thesis by simp
    next
      case L2: (Latest a)
      let ?best = "if b < a then Latest a else Latest b"
      have "Nan \<in> set (?best # ys)" using Cons.prems(1) Latest L2 by auto
      moreover have "\<exists>n. Latest n \<in> set (?best # ys)" by auto
      ultimately have "max_from ?best ys = Inl TypeError" by (rule Cons.IH)
      with Latest L2 show ?thesis by simp
    qed
  qed
qed

lemma default_date_without_rows:
  "(data \<noteq> [] \<and> (\<forall>kv \<in> set data. snd kv = []) \<longrightarrow>
      default_trade_date data = (Inl AttributeError, []))
   \<and> ((\<exists>kv \<in> set data. snd kv = []) \<and> (\<exists>kv \<in> set data. snd kv \<noteq> []) \<longrightarrow>
      default_trade_date data = (Inl TypeError, []))"
proof (intro conjI impI)
  assume h: "data \<noteq> [] \<and> (\<forall>kv \<in> set data. snd kv = [])"
  then obtain kv rest where d: "data = kv # rest" by (cases data) auto
  with h have "series_max (snd kv) = Nan" "\<forall>y \<in> set (map (\<lambda>kv. series_max (snd kv)) rest). y = Nan"
    by (auto simp: series_max_def)
  then have "py_max (map (\<lambda>kv. series_max (snd kv)) data) = Inr Nan"
    using d by (simp add: py_max_def max_from_all_Nan)
  then show "default_trade_date data = (Inl AttributeError, [])"
    by (simp add: default_trade_date_def)
next
  assume h: "(\<exists>kv \<in> set data. snd kv = []) \<and> (\<exists>kv \<in> set data. snd kv \<noteq> [])"
  then obtain kv rest where d: "data = kv # rest" by (cases data) auto
  let ?ms = "map (\<lambda>kv. series_max (snd kv)) data"
  from h obtain k1 where "k1 \<in> set data" "snd k1 = []" by blast
  then have n: "Nan \<in> set ?ms" by (force simp: series_max_def)
  from h obtain k2 where k2: "k2 \<in> set data" "snd k2 \<noteq> []" by blast
  then have "series_max (snd k2) = Latest (Max (fst ` set (snd k2)))"
    by (simp add: series_max_nonempty)
  with k2 have l: "\<exists>n. Latest n \<in> set ?ms" by force
  from n l d have "max_from (series_max (snd kv)) (map (\<lambda>kv. series_max (snd kv)) rest)
      = Inl TypeError"
    using max_from_mixed [of "series_max (snd kv)" "map (\<lambda>kv. series_max (snd kv)) rest"]
    by simp
  with d have "py_max ?ms = Inl TypeError" by (simp add: py_max_def)
  then show "default_trade_date data = (Inl TypeError, [])"
    by (simp add: default_trade_date_def)
qed

lemma run_one_select_date:
  "run_one env td data info r cfg = (out, evs) \<Longrightarrow> Call_select c t \<in> set evs \<Longrightarrow> t = td"
  by (auto simp: run_one_def report_def
      split: sum.splits if_splits prod.splits option.splits)

lemma run_selectors_select_date:
  "run_selectors env td data info cfgs r = (out, evs) \<Longrightarrow> Call_select c t \<in> set evs \<Longrightarrow> t = td"
proof (induction cfgs arbitrary: r out evs)
  case Nil then show ?case by simp
next
  case (Cons cfg cfgs)
  then show ?case
    by (auto split: prod.splits sum.splits dest: run_one_select_date)
qed

lemma load_data_loop_no_select:
  "load_data_loop env dir codes frames = (out, evs) \<Longrightarrow> Call_select c t \<notin> set evs"
  by (induction codes arbitrary: frames out evs)
     (auto split: if_splits prod.splits sum.splits)

lemma resolve_no_select:
  "resolve_trade_date env d data = (out, evs) \<Longrightarrow> Call_select c t \<notin> set evs"
  by (auto simp: resolve_trade_date_def default_trade_date_def
      split: option.splits if_splits sum.splits col_max.splits)

lemma prepare_no_select: "prepare env a etf = (out, evs) \<Longrightarrow> Call_select c t \<notin> set evs"
  by (auto simp: prepare_def Let_def load_data_def load_config_def load_etf_info_def
      dest: load_data_loop_no_select resolve_no_select
      split: if_splits sum.splits prod.splits option.splits)

lemma prepare_Inr:
  "prepare env a etf = (Inr (td, data, doc, info), evs) \<Longrightarrow>
     \<exists>evs1 evs2. load_data env (data_dir a) (requested_codes env a) = (Inr data, evs1)
        \<and> resolve_trade_date env (date a) data = (Inr td, evs2)"
  by (auto simp: prepare_def Let_def split: if_splits sum.splits prod.splits)

text \<open>
  C4, as the code has it. A date that is given (a non-empty string) resolves to what
  \<^verbatim>\<open>pd.to_datetime\<close> makes of it, whatever the data holds. With no date given, and every
  loaded series holding at least one row, the trade date is the maximum over the loaded
  series of the maximum date of each, and it is logged. And every call of a strategy's
  \<^verbatim>\<open>select\<close> in a run of \<^verbatim>\<open>run_select_stock\<close> gets the date so resolved from the loaded
  data.
\<close>

theorem trade_date_resolution:
  "(s \<noteq> [] \<longrightarrow> resolve_trade_date env (Some s) data = (to_datetime env s, []))
   \<and> (\<not> date_given d \<and> data \<noteq> [] \<and> (\<forall>kv \<in> set data. snd kv \<noteq> []) \<longrightarrow>
        resolve_trade_date env d data
          = (Inr (Ts (Max ((\<lambda>kv. Max (fst ` set (snd kv))) ` set data))),
             [Info_default_date (Ts (Max ((\<lambda>kv. Max (fst ` set (snd kv))) ` set data)))]))
   \<and> (Call_select cfg td \<in> set (snd (run_select_stock env a etf)) \<longrightarrow>
        (\<exists>loaded evs1 evs2.
            load_data env (data_dir a) (requested_codes env a) = (Inr loaded, evs1)
            \<and> resolve_trade_date env (date a) loaded = (Inr td, evs2)))"
proof -
  have 1: "s \<noteq> [] \<longrightarrow> resolve_trade_date env (Some s) data = (to_datetime env s, [])"
    by (simp add: resolve_trade_date_def)
  have 2: "\<not> date_given d \<and> data \<noteq> [] \<and> (\<forall>kv \<in> set data. snd kv \<noteq> []) \<longrightarrow>
        resolve_trade_date env d data
          = (Inr (Ts (Max ((\<lambda>kv. Max (fst ` set (snd kv))) ` set data))),
             [Info_default_date (Ts (Max ((\<lambda>kv. Max (fst ` set (snd kv))) ` set data)))])"
    using default_date [of data] by (cases d) (auto simp: resolve_trade_date_def)
  have 3: "Call_select cfg td \<in> set (snd (run_select_stock env a etf)) \<longrightarrow>
        (\<exists>loaded evs1 evs2.
            load_data env (data_dir a) (requested_codes env a) = (Inr loaded, evs1)
            \<and> resolve_trade_date env (date a) loaded = (Inr td, evs2))"
  proof
    assume ev: "Call_select cfg td \<in> set (snd (run_select_stock env a etf))"
    obtain out evs where p: "prepare env a etf = (out, evs)" by (cases "prepare env a etf")
    have pe: "Call_select cfg td \<notin> set evs" by (rule prepare_no_select [OF p])
    show "\<exists>loaded evs1 evs2.
            load_data env (data_dir a) (requested_codes env a) = (Inr loaded, evs1)
            \<and> resolve_trade_date env (date a) loaded = (Inr td, evs2)"
    proof (cases out)
      case (Inl o1)
      with p pe ev show ?thesis by (simp add: run_select_stock_def)
    next
      case (Inr q)
      obtain t loaded doc info where q: "q = (t, loaded, doc, info)" by (cases q) auto
      show ?thesis
      proof (cases "py_iter doc")
        case (Inl e)
        with p Inr q pe ev show ?thesis by (simp add: run_select_stock_def)
      next
        case it: (Inr cfgs)
        obtain out' evs' where rs: "run_selectors env t loaded info cfgs [] = (out', evs')"
          by (cases "run_selectors env t loaded info cfgs []")
        from p Inr q it rs ev pe have "Call_select cfg td \<in> set evs'"
          by (cases out') (auto simp: run_select_stock_def)
        with rs have "td = t" by (rule run_selectors_select_date)
        with p Inr q prepare_Inr [of env a etf t loaded doc info evs] show ?thesis by blast
      qed
    qed
  qed
  from 1 2 3 show ?thesis by blast
qed

text \<open>
  The claim itself fails where a loaded series has no row (a file with its header only):
  with no date given the run resolves no date, it raises.
\<close>

theorem trade_date_resolution_counterexample:
  "load_data
     ((demo_env JNull)\<lparr>csv_exists := \<lambda>d code. code = ''A'' \<or> code = ''E'',
                       read_csv := \<lambda>d code. if code = ''A'' then Inr [(3, ''x''), (1, ''y'')]
                                              else Inr []\<rparr>)
     ''data'' [''A'', ''E'']
     = (Inr [(''A'', [(1, ''y''), (3, ''x'')]), (''E'', [])],
        [Call_read_csv ''A'', Call_read_csv ''E''])
   \<and> resolve_trade_date
        ((demo_env JNull)\<lparr>csv_exists := \<lambda>d code. code = ''A'' \<or> code = ''E'',
                          read_csv := \<lambda>d code. if code = ''A'' then Inr [(3, ''x''), (1, ''y'')]
                                                 else Inr []\<rparr>)
        None [(''A'', [(1, ''y''), (3, ''x'')]), (''E'', [])]
     = (Inl TypeError, [])
   \<and> run_select_stock
        ((demo_env (JArr [JObj [(''class'', JStr ''Every'')]]))
           \<lparr>csv_exists := \<lambda>d code. code = ''A'' \<or> code = ''E'',
            read_csv := \<lambda>d code. if code = ''A'' then Inr [(3, ''x''), (1, ''y'')] else Inr []\<rparr>)
        (demo_args\<lparr>tickers := ''A,E''\<rparr>) None
     = (Raised TypeError, [Call_read_csv ''A'', Call_read_csv ''E''])
   \<and> run_select_stock
        ((demo_env (JArr [JObj [(''class'', JStr ''Every'')]]))
           \<lparr>csv_exists := \<lambda>d code. code = ''A'' \<or> code = ''E'',
            read_csv := \<lambda>d code. if code = ''A'' then Inr [(3, ''x''), (1, ''y'')] else Inr []\<rparr>)
        (demo_args\<lparr>tickers := ''E''\<rparr>) None
     = (Raised AttributeError, [Call_read_csv ''E''])"
  by (simp add: demo_defs)

theorem trade_date_resolution_witness:
  "''2025-06-30'' \<noteq> []
   \<and> resolve_trade_date (demo_env (JArr [JObj [(''class'', JStr ''Every'')]]))
         (Some ''2025-06-30'') [(''A'', [(1, ''y''), (3, ''x'')]), (''B'', [(2, ''z'')])]
       = (Inr (Ts 7), [])
   \<and> \<not> date_given None
   \<and> resolve_trade_date (demo_env (JArr [JObj [(''class'', JStr ''Every'')]]))
         None [(''A'', [(1, ''y''), (3, ''x'')]), (''B'', [(2, ''z'')])]
       = (Inr (Ts 3), [Info_default_date (Ts 3)])
   \<and> Call_select (JObj [(''class'', JStr ''Every'')]) (Ts 3)
       \<in> set (snd (run_select_stock (demo_env (JArr [JObj [(''class'', JStr ''Every'')]]))
                      demo_args None))
   \<and> (\<exists>loaded evs1 evs2.
         load_data (demo_env (JArr [JObj [(''class'', JStr ''Every'')]])) (data_dir demo_args)
           (requested_codes (demo_env (JArr [JObj [(''class'', JStr ''Every'')]])) demo_args)
           = (Inr loaded, evs1)
         \<and> resolve_trade_date (demo_env (JArr [JObj [(''class'', JStr ''Every'')]]))
              (date demo_args) loaded = (Inr (Ts 3), evs2))"
proof -
  have ev: "Call_select (JObj [(''class'', JStr ''Every'')]) (Ts 3)
       \<in> set (snd (run_select_stock (demo_env (JArr [JObj [(''class'', JStr ''Every'')]]))
                      demo_args None))"
    by (simp add: demo_defs)
  show ?thesis
    using ev trade_date_resolution
      [where s = "''2025-06-30''" and env = "demo_env (JArr [JObj [(''class'', JStr ''Every'')]])"
         and data = "[(''A'', [(1, ''y''), (3, ''x'')]), (''B'', [(2, ''z'')])]" and d = None
         and cfg = "JObj [(''class'', JStr ''Every'')]" and td = "Ts 3" and a = demo_args
         and etf = None]
    by (simp add: demo_env_def)
qed

subsection \<open>Loading the data\<close>






subsection \<open>Two configurations under one alias\<close>

lemma py_eq_refl: "py_eq a a"
  by (simp add: py_eq_def split: option.splits)

lemma py_eq_sym: "py_eq a b \<Longrightarrow> py_eq b a"
  by (auto simp: py_eq_def split: option.splits)

lemma py_eq_trans: "py_eq a b \<Longrightarrow> py_eq b c \<Longrightarrow> py_eq a c"
  by (auto simp: py_eq_def split: option.splits)

lemma dict_get_upd:
  "dict_get (dict_upd k v d) k' = (if py_eq k k' then Some v else dict_get d k')"
proof (induction d)
  case Nil show ?case by simp
next
  case (Cons p ps)
  show ?case
  proof (cases "py_eq (fst p) k")
    case True
    then have "py_eq (fst p) k' \<longleftrightarrow> py_eq k k'"
      using py_eq_trans py_eq_sym by blast
    with True show ?thesis by simp
  next
    case False
    then have "py_eq k k' \<Longrightarrow> \<not> py_eq (fst p) k'"
      using py_eq_trans py_eq_sym by blast
    with False Cons show ?thesis by auto
  qed
qed

lemma run_one_result:
  assumes "run_one env td data info r cfg = (Inr r', evs)"
  shows "r' = r \<or> (\<not> deactivated cfg \<and> (\<exists>al sel picks.
           instantiate_selector env cfg = Inr (al, sel) \<and> sel td data = Inr picks
           \<and> r' = dict_upd al picks r))"
  using assms
  by (auto simp: run_one_def deactivated_def dict_set_def
      split: sum.splits if_splits prod.splits option.splits)

lemma run_one_success:
  assumes "run_one env td data info r cfg = (Inr r', evs)"
    and "\<not> deactivated cfg" and "instantiate_selector env cfg = Inr (al, sel)"
    and "sel td data = Inr picks"
  shows "r' = dict_upd al picks r"
  using assms
  by (auto simp: run_one_def deactivated_def dict_set_def
      split: sum.splits if_splits prod.splits option.splits)

lemma run_selectors_keeps:
  assumes "run_selectors env td data info post r = (Inr res, evs)"
    and "\<forall>c \<in> set post. \<forall>al' sel'. \<not> deactivated c \<and> instantiate_selector env c = Inr (al', sel')
           \<longrightarrow> \<not> py_eq al' al"
  shows "dict_get res al = dict_get r al"
  using assms
proof (induction post arbitrary: r evs)
  case Nil then show ?case by simp
next
  case (Cons c post)
  from Cons.prems(1) obtain r1 e1 e2 where
    ro: "run_one env td data info r c = (Inr r1, e1)"
    and rs: "run_selectors env td data info post r1 = (Inr res, e2)"
    by (auto split: prod.splits sum.splits)
  have "dict_get res al = dict_get r1 al"
    using Cons.IH [OF rs] Cons.prems(2) by simp
  moreover have "dict_get r1 al = dict_get r al"
  proof -
    from run_one_result [OF ro] show ?thesis
    proof
      assume "r1 = r" then show ?thesis by simp
    next
      assume "\<not> deactivated c \<and> (\<exists>al' sel picks.
           instantiate_selector env c = Inr (al', sel) \<and> sel td data = Inr picks
           \<and> r1 = dict_upd al' picks r)"
      then obtain al' sel picks where d: "\<not> deactivated c"
        and i: "instantiate_selector env c = Inr (al', sel)" and u: "r1 = dict_upd al' picks r"
        by blast
      from d i Cons.prems(2) have "\<not> py_eq al' al" by simp
      with u show ?thesis by (simp add: dict_get_upd)
    qed
  qed
  ultimately show ?case by simp
qed

text \<open>
  C7. Take a run of the loop that ends normally, and in it a configuration that is not
  deactivated, whose strategy is built under the alias \<open>al\<close> and whose \<^verbatim>\<open>select\<close> returns
  \<open>picks\<close>. If no configuration after it is run under an alias equal to \<open>al\<close>, the final
  mapping holds \<open>picks\<close> under \<open>al\<close>, whatever was stored under \<open>al\<close> before: of two
  configurations with one alias the later wins, and a configuration whose alias no other
  shares keeps its own result. That mapping is what \<^verbatim>\<open>run_select_stock\<close> returns.
\<close>

theorem last_write_wins:
  assumes "run_selectors env td data info (pre @ cfg # post) [] = (Inr res, evs)"
    and "\<not> deactivated cfg"
    and "instantiate_selector env cfg = Inr (al, selector)"
    and "selector td data = Inr picks"
    and "\<forall>c \<in> set post. \<forall>al' sel'.
           \<not> deactivated c \<and> instantiate_selector env c = Inr (al', sel') \<longrightarrow> \<not> py_eq al' al"
  shows "dict_get res al = Some picks
     \<and> (prepare env a etf = (Inr (td, data, JArr (pre @ cfg # post), info), evs0) \<longrightarrow>
          run_select_stock env a etf = (ReturnResults res, evs0 @ evs))"
proof -
  from assms(1) obtain r1 e1 r2 e2 e3 where
    "run_selectors env td data info pre [] = (Inr r1, e1)"
    and ro: "run_one env td data info r1 cfg = (Inr r2, e2)"
    and rs: "run_selectors env td data info post r2 = (Inr res, e3)"
    by (auto simp: run_selectors_append split: prod.splits sum.splits)
  have "r2 = dict_upd al picks r1"
    by (rule run_one_success [OF ro assms(2) assms(3) assms(4)])
  then have "dict_get r2 al = Some picks" by (simp add: dict_get_upd py_eq_refl)
  moreover have "dict_get res al = dict_get r2 al"
    by (rule run_selectors_keeps [OF rs assms(5)])
  ultimately have 1: "dict_get res al = Some picks" by simp
  have 2: "prepare env a etf = (Inr (td, data, JArr (pre @ cfg # post), info), evs0) \<longrightarrow>
          run_select_stock env a etf = (ReturnResults res, evs0 @ evs)"
    using assms(1) by (simp add: run_select_stock_def)
  from 1 2 show ?thesis by blast
qed

theorem last_write_wins_witness:
  "run_selectors (demo_env (JArr lww_specs)) (Ts 3)
      [(''A'', [(1, ''y''), (3, ''x'')]), (''B'', [(2, ''z'')])] None lww_specs []
    = (Inr [(JStr ''X'', [''A'']), (JStr ''Every'', [''A'', ''B''])],
       [Call_instantiate (JObj [(''class'', JStr ''Every''), (''alias'', JStr ''X'')]),
        Call_select (JObj [(''class'', JStr ''Every''), (''alias'', JStr ''X'')]) (Ts 3),
        Info_result (JStr ''X'') (Ts 3) 2, Info_picks [''A'', ''B''],
        Call_instantiate (JObj [(''class'', JStr ''OnDate''), (''alias'', JStr ''X'')]),
        Call_select (JObj [(''class'', JStr ''OnDate''), (''alias'', JStr ''X'')]) (Ts 3),
        Info_result (JStr ''X'') (Ts 3) 1, Info_picks [''A''],
        Call_instantiate (JObj [(''class'', JStr ''Every'')]),
        Call_select (JObj [(''class'', JStr ''Every'')]) (Ts 3),
        Info_result (JStr ''Every'') (Ts 3) 2, Info_picks [''A'', ''B'']])
   \<and> dict_get [(JStr ''X'', [''A'']), (JStr ''Every'', [''A'', ''B''])] (JStr ''X'') = Some [''A'']
   \<and> fst (run_select_stock (demo_env (JArr lww_specs)) demo_args None)
       = ReturnResults [(JStr ''X'', [''A'']), (JStr ''Every'', [''A'', ''B''])]"
proof -
  have run: "run_selectors (demo_env (JArr lww_specs)) (Ts 3)
      [(''A'', [(1, ''y''), (3, ''x'')]), (''B'', [(2, ''z'')])] None lww_specs []
    = (Inr [(JStr ''X'', [''A'']), (JStr ''Every'', [''A'', ''B''])],
       [Call_instantiate (JObj [(''class'', JStr ''Every''), (''alias'', JStr ''X'')]),
        Call_select (JObj [(''class'', JStr ''Every''), (''alias'', JStr ''X'')]) (Ts 3),
        Info_result (JStr ''X'') (Ts 3) 2, Info_picks [''A'', ''B''],
        Call_instantiate (JObj [(''class'', JStr ''OnDate''), (''alias'', JStr ''X'')]),
        Call_select (JObj [(''class'', JStr ''OnDate''), (''alias'', JStr ''X'')]) (Ts 3),
        Info_result (JStr ''X'') (Ts 3) 1, Info_picks [''A''],
        Call_instantiate (JObj [(''class'', JStr ''Every'')]),
        Call_select (JObj [(''class'', JStr ''Every'')]) (Ts 3),
        Info_result (JStr ''Every'') (Ts 3) 2, Info_picks [''A'', ''B'']])"
    by (simp add: lww_specs_def demo_env_def run_one_def instantiate_selector_def load_class_def
          Every_def OnDate_def last_date_def dict_set_def report_def py_eq_def series_max_def)
  have prep: "prepare (demo_env (JArr lww_specs)) demo_args None
     = (Inr (Ts 3, [(''A'', [(1, ''y''), (3, ''x'')]), (''B'', [(2, ''z'')])],
             JArr lww_specs, None),
        [Call_read_csv ''A'', Call_read_csv ''B'', Info_default_date (Ts 3)])"
    by (rule demo_prepare) (simp add: lww_specs_def)
  have act: "\<not> deactivated (JObj [(''class'', JStr ''OnDate''), (''alias'', JStr ''X'')])"
    by (simp add: deactivated_def)
  have inst: "instantiate_selector (demo_env (JArr lww_specs))
        (JObj [(''class'', JStr ''OnDate''), (''alias'', JStr ''X'')])
      = Inr (JStr ''X'',
             \<lambda>trade_date data.
                Inr (map fst (filter (\<lambda>kv. last_date (snd kv) = Some trade_date) data)))"
    by (simp add: demo_env_def instantiate_selector_def load_class_def OnDate_def)
  have later: "\<forall>c \<in> set [JObj [(''class'', JStr ''Every'')]]. \<forall>al' sel'.
           \<not> deactivated c \<and> instantiate_selector (demo_env (JArr lww_specs)) c = Inr (al', sel')
             \<longrightarrow> \<not> py_eq al' (JStr ''X'')"
    by (auto simp: demo_env_def instantiate_selector_def load_class_def Every_def py_eq_def)
  show ?thesis
    using last_write_wins
      [where env = "demo_env (JArr lww_specs)" and td = "Ts 3"
         and data = "[(''A'', [(1, ''y''), (3, ''x'')]), (''B'', [(2, ''z'')])]" and info = None
         and pre = "[JObj [(''class'', JStr ''Every''), (''alias'', JStr ''X'')]]"
         and cfg = "JObj [(''class'', JStr ''OnDate''), (''alias'', JStr ''X'')]"
         and post = "[JObj [(''class'', JStr ''Every'')]]"
         and res = "[(JStr ''X'', [''A'']), (JStr ''Every'', [''A'', ''B''])]"
         and evs = "[Call_instantiate (JObj [(''class'', JStr ''Every''), (''alias'', JStr ''X'')]),
        Call_select (JObj [(''class'', JStr ''Every''), (''alias'', JStr ''X'')]) (Ts 3),
        Info_result (JStr ''X'') (Ts 3) 2, Info_picks [''A'', ''B''],
        Call_instantiate (JObj [(''class'', JStr ''OnDate''), (''alias'', JStr ''X'')]),
        Call_select (JObj [(''class'', JStr ''OnDate''), (''alias'', JStr ''X'')]) (Ts 3),
        Info_result (JStr ''X'') (Ts 3) 1, Info_picks [''A''],
        Call_instantiate (JObj [(''class'', JStr ''Every'')]),
        Call_select (JObj [(''class'', JStr ''Every'')]) (Ts 3),
        Info_result (JStr ''Every'') (Ts 3) 2, Info_picks [''A'', ''B'']]"
         and al = "JStr ''X''"
         and selector = "\<lambda>trade_date data.
             Inr (map fst (filter (\<lambda>kv. last_date (snd kv) = Some trade_date) data))"
         and picks = "[''A'']" and a = demo_args and etf = None
         and ?evs0.0 = "[Call_read_csv ''A'', Call_read_csv ''B'', Info_default_date (Ts 3)]"]
      run act inst later prep
    by (simp add: lww_specs_def last_date_def series_max_def)
qed

end
